theory Spec2Isabelle
  imports Complex_Main "HOL-Library.Multiset" "HOL-Library.List_Lexorder"
begin

section \<open>The concept-map service\<close>

text \<open>
  The development follows \<^verbatim>\<open>ConceptMapSaaS/server/services/conceptMapService.js\<close>, the
  service the controller requires. A JavaScript string is the list of its UTF-16 code
  units, each a natural number. A number is a real: the arithmetic of the model is exact
  where the doubles of the code round, so the model says nothing of what depends on the
  last bit of a double (the score after \<^verbatim>\<open>toFixed(2)\<close>, its comparison with 0.5). The
  three results of a division by zero that the coherence score can produce are values of
  their own.
\<close>

type_synonym jsstring = "nat list"

abbreviation (input) js :: "string \<Rightarrow> jsstring" where
  "js s \<equiv> map of_char s"

datatype jsnum = Num real | NaN | PosInf

subsection \<open>Data model\<close>

record classification =
  category :: jsstring
  domain :: jsstring

text \<open>
  Of the formatting attributes of stage 5 only the two that the Markdown renderer reads
  back are kept; colour, font and padding are styling constants that nothing reads.
\<close>

record formatting =
  bold :: bool
  underline :: bool

record concept =
  cid :: jsstring
  name :: jsstring
  originalForm :: jsstring
  importance :: real
  frequency :: nat
  level :: nat
  firstOccurrence :: int
  isCritical :: bool
  definition_of :: "jsstring option"
  examples :: "jsstring list option"
  relatedTerms :: "jsstring list option"
  classification :: "classification option"
  formatting :: "formatting option"

record relationship =
  rid :: jsstring
  source :: jsstring
  target :: jsstring
  rtype :: jsstring
  strength :: real
  sharedSentences :: nat
  semanticCategory :: "jsstring option"
  visualWeight :: "int option"

subsection \<open>Strings\<close>

text \<open>
  The character classes of the regular expressions: \<^verbatim>\<open>\s\<close>, \<^verbatim>\<open>\w\<close>, the sentence
  terminators of \<^verbatim>\<open>/[.!?]+/\<close> and the characters that \<^verbatim>\<open>/[^a-z...\w]/g\<close> leaves in a
  word (the ASCII letters, digits, underscore and the seven accented Spanish letters).
\<close>

definition isSpace :: "nat \<Rightarrow> bool" where
  "isSpace c \<longleftrightarrow>
     c \<in> {9, 10, 11, 12, 13, 32, 160, 5760, 8232, 8233, 8239, 8287, 12288, 65279}
     \<or> (8192 \<le> c \<and> c \<le> 8202)"

definition isWordChar :: "nat \<Rightarrow> bool" where
  "isWordChar c \<longleftrightarrow>
     (48 \<le> c \<and> c \<le> 57) \<or> (65 \<le> c \<and> c \<le> 90) \<or> c = 95 \<or> (97 \<le> c \<and> c \<le> 122)"

definition isSentenceEnd :: "nat \<Rightarrow> bool" where
  "isSentenceEnd c \<longleftrightarrow> c = 46 \<or> c = 33 \<or> c = 63"

definition keepChar :: "nat \<Rightarrow> bool" where
  "keepChar c \<longleftrightarrow>
     (97 \<le> c \<and> c \<le> 122) \<or> c \<in> {225, 233, 237, 243, 250, 252, 241} \<or> isWordChar c"

text \<open>
  \<^verbatim>\<open>toLowerCase\<close>, unit by unit: the letters below U+0100, and the three capitals above
  whose lower-case form reaches that range (U+0130, the Kelvin and the Angstrom sign). Every
  other unit is left as it is; the words of the service consist of kept characters only,
  so no comparison below can tell.
\<close>

definition lowerUnit :: "nat \<Rightarrow> nat list" where
  "lowerUnit c =
     (if 65 \<le> c \<and> c \<le> 90 then [c + 32]
      else if 192 \<le> c \<and> c \<le> 222 \<and> c \<noteq> 215 then [c + 32]
      else if c = 304 then [105, 775]
      else if c = 8490 then [107]
      else if c = 8491 then [229]
      else [c])"

definition toLowerCase :: "jsstring \<Rightarrow> jsstring" where
  "toLowerCase s = concat (map lowerUnit s)"

text \<open>
  \<^verbatim>\<open>split\<close> on a regular expression \<^verbatim>\<open>[...]+\<close>: the pieces between the maximal runs
  of separator characters, with an empty piece before a leading and after a trailing run.
  The flag tells that the previous character was a separator.
\<close>

fun splitAux :: "('a \<Rightarrow> bool) \<Rightarrow> bool \<Rightarrow> 'a list \<Rightarrow> 'a list list" where
  "splitAux P inRun [] = [[]]"
| "splitAux P inRun (c # cs) =
     (if P c then (if inRun then splitAux P True cs else [] # splitAux P True cs)
      else (case splitAux P False cs of
              [] \<Rightarrow> [[c]]
            | w # ws \<Rightarrow> (c # w) # ws))"

definition splitRuns :: "('a \<Rightarrow> bool) \<Rightarrow> 'a list \<Rightarrow> 'a list list" where
  "splitRuns P s = splitAux P False s"

text \<open>\<^verbatim>\<open>s.trim().length > 0\<close>\<close>

definition nonBlank :: "jsstring \<Rightarrow> bool" where
  "nonBlank s \<longleftrightarrow> (\<exists>c \<in> set s. \<not> isSpace c)"

definition startsWith :: "'a list \<Rightarrow> 'a list \<Rightarrow> bool" where
  "startsWith s p \<longleftrightarrow> take (length p) s = p"

fun includesStr :: "'a list \<Rightarrow> 'a list \<Rightarrow> bool" where
  "includesStr [] p = (p = [])"
| "includesStr (c # cs) p = (startsWith (c # cs) p \<or> includesStr cs p)"

fun indexFrom :: "nat \<Rightarrow> 'a list \<Rightarrow> 'a list \<Rightarrow> int" where
  "indexFrom i [] p = (if p = [] then int i else - 1)"
| "indexFrom i (c # cs) p = (if startsWith (c # cs) p then int i else indexFrom (Suc i) cs p)"

definition indexOf :: "'a list \<Rightarrow> 'a list \<Rightarrow> int" where
  "indexOf s p = indexFrom 0 s p"

text \<open>The decimal numeral of an index, and the number a decimal numeral stands for.\<close>

function showNat :: "nat \<Rightarrow> jsstring" where
  "showNat n = (if n < 10 then [48 + n] else showNat (n div 10) @ [48 + n mod 10])"
  by pat_completeness auto
termination
  by (relation "measure id") auto

definition decimalValue :: "jsstring \<Rightarrow> nat" where
  "decimalValue k = fold (\<lambda>c acc. acc * 10 + (c - 48)) k 0"

definition joinWith :: "'a list \<Rightarrow> 'a list list \<Rightarrow> 'a list" where
  "joinWith sep xs = (case xs of [] \<Rightarrow> [] | x # rest \<Rightarrow> x @ concat (map (\<lambda>y. sep @ y) rest))"

subsection \<open>Stage 1: extraction\<close>

text \<open>
  The frequency table is an object literal whose keys are the cleaned words: an association
  list in insertion order. An object literal inherits the properties \<^verbatim>\<open>constructor\<close>
  and \<^verbatim>\<open>__proto__\<close>. The count of \<^verbatim>\<open>__proto__\<close> is never stored (the assignment of
  a string to that property does nothing), so the word is never a key. The count of
  \<^verbatim>\<open>constructor\<close> is a string, the importance of that word is \<^verbatim>\<open>NaN\<close> and the order
  of the sorts is then left to the engine: the table of such a text is \<open>None\<close>, and the
  model says nothing of what the pipeline returns for it.
  \<^verbatim>\<open>Object.keys\<close> lists the keys that are array indices first, in ascending numeric
  order, then the others in insertion order.
\<close>

definition cleanWord :: "jsstring \<Rightarrow> jsstring" where
  "cleanWord word = filter keepChar (toLowerCase word)"

fun bump :: "'k \<Rightarrow> ('k \<times> nat) list \<Rightarrow> ('k \<times> nat) list" where
  "bump k [] = [(k, 1)]"
| "bump k ((k', n) # kvs) = (if k = k' then (k', n + 1) # kvs else (k', n) # bump k kvs)"

definition countWord :: "jsstring \<Rightarrow> (jsstring \<times> nat) list \<Rightarrow> (jsstring \<times> nat) list" where
  "countWord word acc =
     (let cw = cleanWord word in
      if length cw > 3 \<and> cw \<noteq> js ''__proto__'' then bump cw acc else acc)"

definition wordFrequency :: "jsstring list \<Rightarrow> (jsstring \<times> nat) list option" where
  "wordFrequency words =
     (if js ''constructor'' \<in> set (map cleanWord words) then None
      else Some (fold countWord words []))"

definition isArrayIndex :: "jsstring \<Rightarrow> bool" where
  "isArrayIndex k \<longleftrightarrow>
     k \<noteq> [] \<and> (\<forall>c \<in> set k. 48 \<le> c \<and> c \<le> 57) \<and> (k = [48] \<or> hd k \<noteq> 48)
     \<and> decimalValue k < 4294967295"

definition objectKeys :: "(jsstring \<times> 'v) list \<Rightarrow> jsstring list" where
  "objectKeys kvs =
     sort_key decimalValue (filter isArrayIndex (map fst kvs))
       @ filter (\<lambda>k. \<not> isArrayIndex k) (map fst kvs)"

definition freqOf :: "(jsstring \<times> nat) list \<Rightarrow> jsstring \<Rightarrow> nat" where
  "freqOf freqs w = (case map_of freqs w of None \<Rightarrow> 0 | Some n \<Rightarrow> n)"

definition commonWords :: "jsstring list" where
  "commonWords = [js ''para'', js ''como'', js ''esto'', js ''este'', js ''esta'',
     js ''estos'', js ''estas'', js ''pero'', js ''porque'']"

definition sortedWords :: "(jsstring \<times> nat) list \<Rightarrow> jsstring list" where
  "sortedWords freqs =
     sort_key (\<lambda>w. - int (freqOf freqs w)) (filter (\<lambda>w. w \<notin> set commonWords) (objectKeys freqs))"

text \<open>
  \<^verbatim>\<open>findOriginalForm\<close>, lines 421-425: the first match of \<^verbatim>\<open>\bword\w*\b\<close>, ignoring
  case, or the word itself. A match starts at a word boundary and spells the word; the
  greedy \<^verbatim>\<open>\w*\<close> then takes the whole run of word characters that follows, after which
  the closing boundary holds if that run is not empty or the word ends in a word
  character. Ignoring case compares the upper-case forms of the units.
\<close>

definition canon :: "nat \<Rightarrow> nat" where
  "canon c =
     (if 97 \<le> c \<and> c \<le> 122 then c - 32
      else if 224 \<le> c \<and> c \<le> 254 \<and> c \<noteq> 247 then c - 32
      else if c = 255 then 376
      else if c = 181 then 924
      else c)"

definition matchHere :: "jsstring \<Rightarrow> bool \<Rightarrow> jsstring \<Rightarrow> jsstring option" where
  "matchHere word prevIsWord s =
     (let m = take (length word) s; rest = drop (length word) s; run = takeWhile isWordChar rest in
      if s \<noteq> [] \<and> length m = length word \<and> map canon m = map canon word
         \<and> prevIsWord \<noteq> isWordChar (hd s)
         \<and> (run \<noteq> [] \<or> isWordChar (last m))
      then Some (m @ run) else None)"

fun findFrom :: "jsstring \<Rightarrow> bool \<Rightarrow> jsstring \<Rightarrow> jsstring option" where
  "findFrom word prevIsWord [] = None"
| "findFrom word prevIsWord (c # cs) =
     (case matchHere word prevIsWord (c # cs) of
        Some m \<Rightarrow> Some m
      | None \<Rightarrow> findFrom word (isWordChar c) cs)"

definition findOriginalForm :: "jsstring \<Rightarrow> jsstring \<Rightarrow> jsstring" where
  "findOriginalForm word text = (case findFrom word False text of Some m \<Rightarrow> m | None \<Rightarrow> word)"

text \<open>\<^verbatim>\<open>extractMainConcepts\<close>, lines 366-413.\<close>

definition mkConcept :: "jsstring \<Rightarrow> (jsstring \<times> nat) list \<Rightarrow> nat \<Rightarrow> nat \<times> jsstring \<Rightarrow> concept" where
  "mkConcept text freqs wordCount iw =
     (let index = fst iw; word = snd iw;
          imp = real (freqOf freqs word) / real wordCount * 100 + (15 - real index) / 3
      in \<lparr> cid = js ''concept-'' @ showNat index,
           name = word,
           originalForm = findOriginalForm word text,
           importance = min imp 6,
           frequency = freqOf freqs word,
           level = (if index < 3 then 0 else if index < 8 then 1 else 2),
           firstOccurrence = indexOf (toLowerCase text) (toLowerCase word),
           isCritical = (index < 5),
           definition_of = None, examples = None, relatedTerms = None,
           classification = None, formatting = None \<rparr>)"

definition extractMainConcepts :: "jsstring \<Rightarrow> concept list option" where
  "extractMainConcepts text =
     (let words = splitRuns isSpace text in
      case wordFrequency words of
        None \<Rightarrow> None
      | Some freqs \<Rightarrow>
          Some (map (mkConcept text freqs (length words))
                  (enumerate 0 (take 15 (sortedWords freqs)))))"

text \<open>
  \<^verbatim>\<open>sortConceptsByRelevance\<close>, lines 432-450: the concepts grouped by level, each
  group by descending importance, the groups in the order of \<^verbatim>\<open>Object.keys(levels).sort()\<close>,
  which compares the level numerals as strings.
\<close>

definition levelKeys :: "concept list \<Rightarrow> nat list" where
  "levelKeys concepts = sort_key showNat (remdups (map level concepts))"

definition sortConceptsByRelevance :: "concept list \<Rightarrow> concept list" where
  "sortConceptsByRelevance concepts =
     (let sortedByLevel = sort_key level concepts in
      concat (map (\<lambda>l. sort_key (\<lambda>c. - importance c) (filter (\<lambda>c. level c = l) sortedByLevel))
                (levelKeys sortedByLevel)))"

subsection \<open>Stage 2: relationships\<close>

text \<open>\<^verbatim>\<open>identifyConceptRelationships\<close>, lines 522-561.\<close>

definition sentencesOf :: "jsstring \<Rightarrow> jsstring list" where
  "sentencesOf text = filter nonBlank (splitRuns isSentenceEnd text)"

definition mentions :: "concept \<Rightarrow> jsstring \<Rightarrow> bool" where
  "mentions c sentence \<longleftrightarrow> includesStr (toLowerCase sentence) (toLowerCase (name c))"

definition relationBetween :: "jsstring list \<Rightarrow> concept \<Rightarrow> concept \<Rightarrow> relationship list" where
  "relationBetween relevantSentences src tgt =
     (if cid src = cid tgt then []
      else let shared = length (filter (mentions tgt) relevantSentences) in
        if shared > 0 then
          [\<lparr> rid = js ''rel-'' @ cid src @ js ''-'' @ cid tgt,
             source = cid src, target = cid tgt,
             rtype = js ''relacionado con'',
             strength = real (min (shared + 1) 5),
             sharedSentences = shared,
             semanticCategory = None, visualWeight = None \<rparr>]
        else [])"

definition identifyConceptRelationships :: "jsstring \<Rightarrow> concept list \<Rightarrow> relationship list" where
  "identifyConceptRelationships text concepts =
     (let sentences = sentencesOf text in
      concat (map (\<lambda>src.
        let relevantSentences = filter (mentions src) sentences in
        concat (map (relationBetween relevantSentences src) concepts)) concepts))"

text \<open>
  \<^verbatim>\<open>classifyRelationshipTypes\<close>, lines 568-605. The type of a relationship is drawn with
  \<^verbatim>\<open>Math.floor(Math.random() * 3)\<close>; the model takes the draws as a function from the
  position of the relationship to a number, read modulo 3.
\<close>

definition relationTypes :: "(jsstring \<times> jsstring) list" where
  "relationTypes =
     [(js ''es parte de'', js ''pertenencia''),
      (js ''causa'', js ''causalidad''),
      (js ''es un tipo de'', js ''clasificaci'' @ [243] @ js ''n''),
      (js ''contiene'', js ''composici'' @ [243] @ js ''n''),
      (js ''influye en'', js ''influencia''),
      (js ''se relaciona con'', js ''asociaci'' @ [243] @ js ''n''),
      (js ''precede a'', js ''secuencia''),
      (js ''requiere'', js ''dependencia''),
      (js ''se opone a'', js ''contraste'')]"

definition typeIndexOf :: "nat \<Rightarrow> relationship \<Rightarrow> nat" where
  "typeIndexOf draw rel =
     (if strength rel \<ge> 4 then draw mod 3
      else if strength rel \<ge> 2 then 4 + draw mod 3
      else 5)"

definition classifyOne :: "(nat \<Rightarrow> nat) \<Rightarrow> nat \<times> relationship \<Rightarrow> relationship" where
  "classifyOne random3 irel =
     (let rel = snd irel; typeIndex = typeIndexOf (random3 (fst irel)) rel in
      rel \<lparr> rtype := fst (relationTypes ! typeIndex),
            semanticCategory := Some (snd (relationTypes ! typeIndex)) \<rparr>)"

definition classifyRelationshipTypes ::
  "(nat \<Rightarrow> nat) \<Rightarrow> relationship list \<Rightarrow> relationship list" where
  "classifyRelationshipTypes random3 relationships =
     map (classifyOne random3) (enumerate 0 relationships)"

text \<open>\<^verbatim>\<open>assignRelationshipStrength\<close>, lines 612-640.\<close>

definition typeWeights :: "(jsstring \<times> real) list" where
  "typeWeights =
     [(js ''causa'', 1.5), (js ''es un tipo de'', 1.3), (js ''es parte de'', 1.3),
      (js ''contiene'', 1.2), (js ''requiere'', 1.2), (js ''precede a'', 1.1),
      (js ''influye en'', 1.0), (js ''se opone a'', 1.0), (js ''se relaciona con'', 0.8)]"

definition assignOne :: "relationship \<Rightarrow> relationship" where
  "assignOne rel =
     (let weight = (case map_of typeWeights (rtype rel) of None \<Rightarrow> 1.0 | Some w \<Rightarrow> w);
          adjustedStrength = min (max (strength rel * weight) 1) 5
      in rel \<lparr> strength := adjustedStrength, visualWeight := Some \<lceil>adjustedStrength\<rceil> \<rparr>)"

definition assignRelationshipStrength :: "relationship list \<Rightarrow> relationship list" where
  "assignRelationshipStrength relationships = map assignOne relationships"

definition analyzeRelationships ::
  "(nat \<Rightarrow> nat) \<Rightarrow> jsstring \<Rightarrow> concept list \<Rightarrow> relationship list" where
  "analyzeRelationships random3 text concepts =
     assignRelationshipStrength
       (classifyRelationshipTypes random3 (identifyConceptRelationships text concepts))"

subsection \<open>Stage 3: enrichment\<close>

text \<open>
  \<^verbatim>\<open>generateConciseDefinition\<close>, lines 649-663. The remainder \<^verbatim>\<open>%\<close> has the sign of
  the dividend, and a negative index reads \<^verbatim>\<open>undefined\<close>.
\<close>

definition displayName :: "concept \<Rightarrow> jsstring" where
  "displayName c = (if originalForm c \<noteq> [] then originalForm c else name c)"

definition generateConciseDefinition :: "concept \<Rightarrow> jsstring option" where
  "generateConciseDefinition c =
     (let definitions =
            [js ''T'' @ [233] @ js ''rmino que hace referencia a '' @ name c
               @ js '' en el contexto del documento'',
             js ''Concepto clave relacionado con la tem'' @ [225] @ js ''tica principal'',
             js ''Elemento fundamental que representa '' @ displayName c,
             js ''Componente que define aspectos esenciales del tema tratado''];
          k = int (level c) + \<lfloor>importance c\<rfloor>
      in if k < 0 \<and> (- k) mod 4 \<noteq> 0 then None else Some (definitions ! nat (k mod 4)))"

text \<open>\<^verbatim>\<open>findRelevantExamples\<close>, lines 670-684.\<close>

definition findRelevantExamples :: "concept \<Rightarrow> jsstring list" where
  "findRelevantExamples c =
     (let examples =
            [js ''Ejemplo aplicado de '' @ displayName c,
             js ''Caso pr'' @ [225] @ js ''ctico que ilustra este concepto'',
             js ''Instancia espec'' @ [237] @ js ''fica que demuestra su aplicaci'' @ [243] @ js ''n''];
          numExamples = min 3 (max 1 (3 - int (level c)))
      in take (nat numExamples) examples)"

text \<open>\<^verbatim>\<open>identifyRelatedTerms\<close>, lines 691-699, and \<^verbatim>\<open>classifyConcept\<close>, lines 706-722.\<close>

definition identifyRelatedTerms :: "concept \<Rightarrow> jsstring list" where
  "identifyRelatedTerms c =
     [js ''T'' @ [233] @ js ''rmino relacionado con '' @ name c,
      js ''Sin'' @ [243] @ js ''nimo contextual'']"

definition classifyConcept :: "concept \<Rightarrow> classification" where
  "classifyConcept c =
     (let categories =
            [js ''Concepto principal'', js ''Concepto secundario'', js ''Concepto terciario'',
             js ''Detalle'', js ''Ejemplo'']
      in \<lparr> category = (if level c < 5 then categories ! level c else categories ! 0),
           domain = js ''General'' \<rparr>)"

text \<open>
  \<^verbatim>\<open>step3_EnrichSemantically\<close>, lines 199-245. A field is filled when it is falsy: absent,
  or for the definition also the empty string. The statistics that the stage writes to the
  metadata (semantic depth, counts of definitions, examples and terms) are not modelled.
\<close>

definition enrichConcept :: "concept \<Rightarrow> concept" where
  "enrichConcept c0 =
     (let c1 = (if definition_of c0 = None \<or> definition_of c0 = Some []
                then c0 \<lparr> definition_of := generateConciseDefinition c0 \<rparr> else c0);
          c2 = (if examples c1 = None then c1 \<lparr> examples := Some (findRelevantExamples c1) \<rparr> else c1);
          c3 = (if relatedTerms c2 = None
                then c2 \<lparr> relatedTerms := Some (identifyRelatedTerms c2) \<rparr> else c2)
      in (if classification c3 = None
          then c3 \<lparr> classification := Some (classifyConcept c3) \<rparr> else c3))"

definition step3_EnrichSemantically :: "concept list \<Rightarrow> concept list" where
  "step3_EnrichSemantically concepts = map enrichConcept concepts"

subsection \<open>Stage 4: validation\<close>

text \<open>\<^verbatim>\<open>filterIrrelevantConcepts\<close>, lines 731-740.\<close>

definition filterIrrelevantConcepts :: "concept list \<Rightarrow> concept list" where
  "filterIrrelevantConcepts concepts =
     filter (\<lambda>c. importance c > 1.5 \<or> frequency c > 1 \<or> isCritical c) concepts"

text \<open>
  \<^verbatim>\<open>validateRelationshipCoherence\<close>, lines 782-807. The level of an endpoint is that
  of the first concept with its id (\<^verbatim>\<open>find\<close>), and 0 when there is none.
\<close>

definition levelOf :: "concept list \<Rightarrow> jsstring \<Rightarrow> nat" where
  "levelOf concepts i = (case find (\<lambda>c. cid c = i) concepts of None \<Rightarrow> 0 | Some c \<Rightarrow> level c)"

definition validateRelationshipCoherence ::
  "relationship list \<Rightarrow> concept list \<Rightarrow> relationship list" where
  "validateRelationshipCoherence relationships concepts =
     (let validConceptIds = set (map cid concepts);
          validRelationships =
            filter (\<lambda>rel. source rel \<in> validConceptIds \<and> target rel \<in> validConceptIds)
              relationships
      in filter (\<lambda>rel. \<not> (rtype rel = js ''es parte de'' \<and>
                 levelOf concepts (source rel) \<le> levelOf concepts (target rel)))
           validRelationships)"

text \<open>
  \<^verbatim>\<open>calculateCoherenceScore\<close>, lines 815-835. The set of connected ids is built by
  insertion, as the loop does. With no concept the first ratio is a division by zero and
  the sum is \<^verbatim>\<open>NaN\<close> whatever the relationships; with one concept the density divides
  by \<^verbatim>\<open>1 * 0 / 2\<close>, which gives \<^verbatim>\<open>NaN\<close> for no relationship and
  \<^verbatim>\<open>Infinity\<close> otherwise.
\<close>

definition setAdd :: "'a \<Rightarrow> 'a list \<Rightarrow> 'a list" where
  "setAdd x acc = (if x \<in> set acc then acc else acc @ [x])"

definition connectedConceptIds :: "relationship list \<Rightarrow> jsstring list" where
  "connectedConceptIds relationships =
     fold (\<lambda>rel acc. setAdd (target rel) (setAdd (source rel) acc)) relationships []"

definition strongRelationships :: "relationship list \<Rightarrow> nat" where
  "strongRelationships relationships = length (filter (\<lambda>rel. strength rel > 3) relationships)"

definition calculateCoherenceScore :: "concept list \<Rightarrow> relationship list \<Rightarrow> jsnum" where
  "calculateCoherenceScore concepts relationships =
     (let n = length concepts; m = length relationships in
      if n = 0 then NaN
      else if n = 1 then (if m = 0 then NaN else PosInf)
      else
        let connectivityRatio = real (length (connectedConceptIds relationships)) / real n;
            relationshipDensity = real m / (real n * (real n - 1) / 2);
            significanceRatio = real (strongRelationships relationships) / real (max 1 m)
        in Num (connectivityRatio * 0.4 + relationshipDensity * 0.3 + significanceRatio * 0.3))"

text \<open>
  \<^verbatim>\<open>removeRedundantConcepts\<close>, lines 747-774: a concept is skipped when its lower-cased
  name was seen, or when the name is longer than 4 and a different seen name starts with
  its first 4 characters.
\<close>

definition redundantStep :: "concept \<Rightarrow> concept list \<times> jsstring list \<Rightarrow> concept list \<times> jsstring list" where
  "redundantStep c st =
     (let uniqueConcepts = fst st; seenNames = snd st;
          normalizedName = toLowerCase (name c)
      in if normalizedName \<in> set seenNames then st
         else
           let isDuplicate =
                 (length normalizedName > 4 \<and>
                  (\<exists>n \<in> set seenNames. startsWith n (take 4 normalizedName) \<and> n \<noteq> normalizedName))
           in if isDuplicate then st
              else (uniqueConcepts @ [c], seenNames @ [normalizedName]))"

definition removeRedundantConcepts :: "concept list \<Rightarrow> concept list" where
  "removeRedundantConcepts concepts = fst (fold redundantStep concepts ([], []))"

record limitation =
  lim_conceptsRemoved :: int
  lim_relationshipsRemoved :: int

record metadata =
  textLength :: nat
  conceptCount :: nat
  relationshipCount :: nat
  conceptsRemoved :: "int option"
  relationshipsRemoved :: "int option"
  limitationApplied :: "limitation option"

record result =
  concepts :: "concept list"
  relationships :: "relationship list"
  conceptEmojis :: "(jsstring \<rightharpoonup> jsstring) option"
  content :: jsstring
  metadata :: metadata

text \<open>
  \<^verbatim>\<open>step4_VerifyAndValidate\<close>, lines 251-289. The stage also stores the score of
  \<^const>\<open>calculateCoherenceScore\<close> on the validated graph, rounded by \<^verbatim>\<open>toFixed(2)\<close>,
  and a warning when it is below 0.5; both are read off the double and are not modelled.
\<close>

definition step4_VerifyAndValidate :: "result \<Rightarrow> result" where
  "step4_VerifyAndValidate r =
     (let originalConceptCount = length (concepts r);
          originalRelationshipCount = length (relationships r);
          relevantConcepts = filterIrrelevantConcepts (concepts r);
          uniqueConcepts = removeRedundantConcepts relevantConcepts;
          rels = validateRelationshipCoherence (relationships r) uniqueConcepts
      in r \<lparr> concepts := uniqueConcepts,
             relationships := rels,
             metadata := (metadata r)
               \<lparr> conceptsRemoved := Some (int originalConceptCount - int (length uniqueConcepts)),
                 relationshipsRemoved :=
                   Some (int originalRelationshipCount - int (length rels)) \<rparr> \<rparr>)"

subsection \<open>Stage 5: presentation\<close>

text \<open>
  \<^verbatim>\<open>assignRelevantEmojis\<close>, lines 844-868: a light bulb, a magnifying glass or a clipboard
  by level, and a star for a critical concept.
\<close>

definition levelEmoji :: "nat \<Rightarrow> jsstring" where
  "levelEmoji l = (if l = 1 then [55357, 56590] else if l = 2 then [55357, 56523] else [55357, 56481])"

definition assignRelevantEmojis :: "concept list \<Rightarrow> (jsstring \<rightharpoonup> jsstring)" where
  "assignRelevantEmojis cs =
     fold (\<lambda>c m. m(cid c \<mapsto> (if isCritical c then [11088] else levelEmoji (level c)))) cs Map.empty"

text \<open>
  \<^verbatim>\<open>step5_OptimizeVisualPresentation\<close>, lines 295-357. A missing or zero importance or
  strength counts as 1; \<^verbatim>\<open>Math.round\<close> rounds half up.

  \<^verbatim>\<open>getEducationalVisualSettings\<close>, lines 875-952, reads \<^verbatim>\<open>styles[style]\<close> from an
  object literal and falls back to the educational style when that is falsy. For a style
  named like a property that every object inherits the lookup yields that property, which
  has no palette and no line styles: formatting the first concept (line 320), or styling
  the first relationship when there is no concept (line 348), then throws a
  \<^verbatim>\<open>TypeError\<close>.
\<close>

datatype error = InvalidInputError | StageFailure

definition inheritedNames :: "jsstring list" where
  "inheritedNames =
     [js ''constructor'', js ''toString'', js ''toLocaleString'', js ''valueOf'',
      js ''hasOwnProperty'', js ''isPrototypeOf'', js ''propertyIsEnumerable'',
      js ''__proto__'', js ''__defineGetter__'', js ''__defineSetter__'',
      js ''__lookupGetter__'', js ''__lookupSetter__'']"

definition formatConcept :: "concept \<Rightarrow> concept" where
  "formatConcept c =
     (let f = (case formatting c of None \<Rightarrow> \<lparr> bold = False, underline = False \<rparr> | Some f \<Rightarrow> f)
      in c \<lparr> formatting := Some
           \<lparr> bold = (bold f \<or> level c = 0 \<or> importance c > 4 \<or> isCritical c),
             underline = (underline f \<or> (level c = 1 \<and> importance c > 3)) \<rparr> \<rparr>)"

definition importanceOr1 :: "concept list \<Rightarrow> jsstring \<Rightarrow> real" where
  "importanceOr1 cs i =
     (case find (\<lambda>c. cid c = i) cs of
        None \<Rightarrow> 1
      | Some c \<Rightarrow> (if importance c = 0 then 1 else importance c))"

definition styleRelationship :: "concept list \<Rightarrow> relationship \<Rightarrow> relationship" where
  "styleRelationship cs rel =
     (let sourceImportance = importanceOr1 cs (source rel);
          targetImportance = importanceOr1 cs (target rel);
          relationStrength = (if strength rel = 0 then 1 else strength rel);
          avgImportance = (sourceImportance + targetImportance) / 2
      in rel \<lparr> visualWeight :=
           Some (max 1 (min 3 \<lfloor>(avgImportance + relationStrength) / 2 + 1 / 2\<rfloor>)) \<rparr>)"

definition presentResult :: "result \<Rightarrow> result" where
  "presentResult r =
     (let emojis = assignRelevantEmojis (concepts r);
          cs = map formatConcept (concepts r)
      in r \<lparr> conceptEmojis := Some emojis,
             concepts := cs,
             relationships := map (styleRelationship cs) (relationships r) \<rparr>)"

definition step5_OptimizeVisualPresentation :: "jsstring \<Rightarrow> result \<Rightarrow> error + result" where
  "step5_OptimizeVisualPresentation styleName r =
     (if styleName \<in> set inheritedNames \<and> (concepts r \<noteq> [] \<or> relationships r \<noteq> [])
      then Inl StageFailure
      else Inr (presentResult r))"

subsection \<open>Rendering\<close>

text \<open>\<^verbatim>\<open>generateEducationalConceptMap\<close>, lines 990-1103: a Markdown outline.\<close>

definition nl :: nat where
  "nl = 10"

definition emojiOf :: "result \<Rightarrow> jsstring \<Rightarrow> jsstring" where
  "emojiOf r i =
     (case conceptEmojis r of
        None \<Rightarrow> []
      | Some m \<Rightarrow> (case m i of None \<Rightarrow> [] | Some e \<Rightarrow> e))"

definition isBold :: "concept \<Rightarrow> bool" where
  "isBold c = (case formatting c of None \<Rightarrow> False | Some f \<Rightarrow> bold f)"

definition isUnderline :: "concept \<Rightarrow> bool" where
  "isUnderline c = (case formatting c of None \<Rightarrow> False | Some f \<Rightarrow> underline f)"

definition boldName :: "concept \<Rightarrow> jsstring" where
  "boldName c = (if isBold c then js ''**'' @ displayName c @ js ''**'' else displayName c)"

definition definitionText :: "concept \<Rightarrow> jsstring" where
  "definitionText c =
     (case definition_of c of
        None \<Rightarrow> []
      | Some d \<Rightarrow> (if d = [] then [] else d @ [nl, nl]))"

definition relatedTo :: "relationship list \<Rightarrow> concept \<Rightarrow> bool" where
  "relatedTo rels c \<longleftrightarrow> (\<exists>rel \<in> set rels. target rel = cid c)"

definition relationPhrase :: "relationship list \<Rightarrow> concept \<Rightarrow> concept \<Rightarrow> jsstring" where
  "relationPhrase rels parent child =
     (case find (\<lambda>rel. target rel = cid child) rels of
        None \<Rightarrow> []
      | Some rel \<Rightarrow> js ''*'' @ rtype rel @ js ''* '' @ name parent)"

definition detailLine :: "relationship list \<Rightarrow> concept \<Rightarrow> concept \<Rightarrow> jsstring" where
  "detailLine subRelations subConcept detail =
     js ''- **'' @ boldName detail @ js ''**: ''
       @ relationPhrase subRelations subConcept detail @ [nl]"

definition subConceptBlock :: "result \<Rightarrow> concept \<Rightarrow> relationship list \<Rightarrow> concept \<Rightarrow> jsstring" where
  "subConceptBlock r mainConcept relations subConcept =
     (let named = boldName subConcept;
          subConceptName = (if isUnderline subConcept then js ''<u>'' @ named @ js ''</u>'' else named);
          phrase = relationPhrase relations mainConcept subConcept;
          subRelations = filter (\<lambda>rel. source rel = cid subConcept) (relationships r);
          relatedDetails = filter (relatedTo subRelations) (filter (\<lambda>c. level c = 2) (concepts r))
      in js ''### '' @ emojiOf r (cid subConcept) @ js '' '' @ subConceptName @ [nl, nl]
         @ (if find (\<lambda>rel. target rel = cid subConcept) relations = None then []
            else phrase @ [nl, nl])
         @ definitionText subConcept
         @ (case examples subConcept of
              None \<Rightarrow> []
            | Some es \<Rightarrow>
                (if es = [] then []
                 else js ''**Ejemplos:**'' @ [nl]
                      @ concat (map (\<lambda>e. js ''- '' @ e @ [nl]) es) @ [nl]))
         @ (if relatedDetails = [] then []
            else js ''**Detalles relacionados:**'' @ [nl]
                 @ concat (map (detailLine subRelations subConcept) relatedDetails) @ [nl])
         @ (case relatedTerms subConcept of
              None \<Rightarrow> []
            | Some ts \<Rightarrow>
                (if ts = [] then []
                 else js ''**T'' @ [233] @ js ''rminos relacionados:** ''
                      @ joinWith (js '', '') ts @ [nl, nl])))"

definition mainConceptBlock :: "result \<Rightarrow> concept \<Rightarrow> jsstring" where
  "mainConceptBlock r mainConcept =
     (let relations = filter (\<lambda>rel. source rel = cid mainConcept) (relationships r);
          relatedSubconcepts = filter (relatedTo relations) (filter (\<lambda>c. level c = 1) (concepts r))
      in js ''## '' @ emojiOf r (cid mainConcept) @ js '' '' @ boldName mainConcept @ [nl, nl]
         @ definitionText mainConcept
         @ concat (map (subConceptBlock r mainConcept relations) relatedSubconcepts))"

definition generateEducationalConceptMap :: "result \<Rightarrow> jsstring" where
  "generateEducationalConceptMap r =
     js ''# Mapa Conceptual'' @ [nl, nl]
       @ concat (map (mainConceptBlock r) (filter (\<lambda>c. level c = 0) (concepts r)))"

subsection \<open>The pipeline\<close>

text \<open>
  The configuration after the defaults are merged in: the stage flags, a whole number for
  \<^verbatim>\<open>maxConcepts\<close> and a string for the style. \<^verbatim>\<open>processText\<close>, lines 16-151,
  rethrows what a stage throws. Its value is \<open>None\<close> when the text is outside the model
  (see the frequency table), \<open>Some (Inl e)\<close> when the call throws and \<open>Some (Inr r)\<close> when
  it returns \<open>r\<close>. The file has no check of the text and throws nothing of its own; the
  one exception that a stage can raise on a string and such a configuration is that of
  stage 5. The stage of the summary writes a text to the metadata only and is left out, as
  are the time stamps, the hierarchy tree and the knowledge graph, which no later step
  reads.
\<close>

record stages =
  organization :: bool
  reasoning :: bool
  enrichment :: bool
  validation :: bool
  aesthetics :: bool
  conclusion :: bool

record config =
  maxConcepts :: int
  style :: jsstring
  stages :: stages
  includeExamples :: bool
  includeDefinitions :: bool

definition step1_OrganizeAndHierarchize :: "jsstring \<Rightarrow> result \<Rightarrow> result option" where
  "step1_OrganizeAndHierarchize text r =
     (case extractMainConcepts text of
        None \<Rightarrow> None
      | Some mainConcepts \<Rightarrow> Some (r \<lparr> concepts := sortConceptsByRelevance mainConcepts \<rparr>))"

definition step2_AnalyzeRelationships :: "(nat \<Rightarrow> nat) \<Rightarrow> jsstring \<Rightarrow> result \<Rightarrow> result" where
  "step2_AnalyzeRelationships random3 text r =
     r \<lparr> relationships := analyzeRelationships random3 text (concepts r) \<rparr>"

text \<open>
  The limitation of lines 116-135. \<^verbatim>\<open>slice(0, n)\<close> keeps the first \<open>n\<close> elements, and
  all but the last \<open>- n\<close> when \<open>n\<close> is negative.
\<close>

definition sliceTo :: "int \<Rightarrow> 'a list \<Rightarrow> 'a list" where
  "sliceTo n xs = (if n \<ge> 0 then take (nat n) xs else take (length xs - nat (- n)) xs)"

definition limitConcepts :: "int \<Rightarrow> result \<Rightarrow> result" where
  "limitConcepts maxC r =
     (if int (length (concepts r)) > maxC then
        let sorted = sort_key (\<lambda>c. - importance c) (concepts r);
            removedCount = int (length (concepts r)) - maxC;
            kept = sliceTo maxC sorted;
            conceptIds = set (map cid kept);
            originalRelationships = length (relationships r);
            rels = filter (\<lambda>rel. source rel \<in> conceptIds \<and> target rel \<in> conceptIds)
                     (relationships r)
        in r \<lparr> concepts := kept,
               relationships := rels,
               metadata := (metadata r)
                 \<lparr> limitationApplied := Some
                     \<lparr> lim_conceptsRemoved = removedCount,
                       lim_relationshipsRemoved = int originalRelationships - int (length rels) \<rparr> \<rparr> \<rparr>
      else r)"

definition initialResult :: "jsstring \<Rightarrow> result" where
  "initialResult text =
     \<lparr> concepts = [], relationships = [], conceptEmojis = None, content = [],
       metadata = \<lparr> textLength = length text, conceptCount = 0, relationshipCount = 0,
                    conceptsRemoved = None, relationshipsRemoved = None,
                    limitationApplied = None \<rparr> \<rparr>"

definition finish :: "result \<Rightarrow> result" where
  "finish r =
     (let r' = r \<lparr> content := generateEducationalConceptMap r \<rparr>
      in r' \<lparr> metadata := (metadata r')
                \<lparr> conceptCount := length (concepts r'),
                  relationshipCount := length (relationships r') \<rparr> \<rparr>)"

text \<open>The stages 2 to 4, each behind its flag, then all five, then the whole call.\<close>

definition validated :: "(nat \<Rightarrow> nat) \<Rightarrow> jsstring \<Rightarrow> config \<Rightarrow> result \<Rightarrow> result" where
  "validated random3 text cfg r1 =
     (let r2 = (if reasoning (stages cfg) then step2_AnalyzeRelationships random3 text r1 else r1);
          r3 = (if enrichment (stages cfg)
                then r2 \<lparr> concepts := step3_EnrichSemantically (concepts r2) \<rparr> else r2)
      in (if validation (stages cfg) then step4_VerifyAndValidate r3 else r3))"

definition runStages :: "(nat \<Rightarrow> nat) \<Rightarrow> jsstring \<Rightarrow> config \<Rightarrow> (error + result) option" where
  "runStages random3 text cfg =
     (case (if organization (stages cfg)
            then step1_OrganizeAndHierarchize text (initialResult text)
            else Some (initialResult text)) of
        None \<Rightarrow> None
      | Some r1 \<Rightarrow>
          Some (if aesthetics (stages cfg)
                then step5_OptimizeVisualPresentation (style cfg) (validated random3 text cfg r1)
                else Inr (validated random3 text cfg r1)))"

definition processText :: "(nat \<Rightarrow> nat) \<Rightarrow> jsstring \<Rightarrow> config \<Rightarrow> (error + result) option" where
  "processText random3 text cfg =
     (case runStages random3 text cfg of
        None \<Rightarrow> None
      | Some (Inl e) \<Rightarrow> Some (Inl e)
      | Some (Inr r) \<Rightarrow> Some (Inr (finish (limitConcepts (maxConcepts cfg) r))))"

subsection \<open>The coherence score of the second service variant\<close>

text \<open>
  The repository holds a further version of the service (\<^verbatim>\<open>src/unnamed/part_004\<close>)
  whose score has the three signals of the specification. Its divisions are guarded by
  \<^verbatim>\<open>Math.max(1, ...)\<close>, so the result is always a finite number.
\<close>

definition connectivityRatio :: "concept list \<Rightarrow> relationship list \<Rightarrow> real" where
  "connectivityRatio cs rs =
     real (length (connectedConceptIds rs)) / real (max 1 (length cs))"

text \<open>The distinct levels in ascending order, and the number of concepts of a level.\<close>

definition levelsOf :: "concept list \<Rightarrow> nat list" where
  "levelsOf cs = sort (remdups (map level cs))"

definition levelCount :: "concept list \<Rightarrow> nat \<Rightarrow> nat" where
  "levelCount cs l = length (filter (\<lambda>c. level c = l) cs)"

fun levelPenalty :: "concept list \<Rightarrow> nat list \<Rightarrow> real" where
  "levelPenalty cs (a # b # ls) =
     (if levelCount cs a < levelCount cs b then 0.2 else 0)
       + levelPenalty cs (b # ls)"
| "levelPenalty cs ls = 0"

definition levelBalanceScore :: "concept list \<Rightarrow> real" where
  "levelBalanceScore cs =
     (let levels = levelsOf cs in
      max 0.2 (if length levels > 1 then 1.0 - levelPenalty cs levels else 0.5))"

definition densityScore :: "concept list \<Rightarrow> relationship list \<Rightarrow> real" where
  "densityScore cs rs =
     (let relationshipDensity = real (length rs) / real (max 1 (length cs)) in
      if relationshipDensity \<le> 0.2 then relationshipDensity * 2
      else if relationshipDensity \<le> 2 then 0.8 - (relationshipDensity - 1) * 0.2
      else 0.4 - min 0.4 ((relationshipDensity - 2) * 0.1))"

definition calculateCoherenceScore_v2 :: "concept list \<Rightarrow> relationship list \<Rightarrow> real" where
  "calculateCoherenceScore_v2 cs rs =
     connectivityRatio cs rs * 0.5
       + levelBalanceScore cs * 0.3
       + densityScore cs rs * 0.2"

subsection \<open>The rule of the specification for irrelevant concepts\<close>

text \<open>
  The specification drops a concept whose importance is below 0.4 times the mean importance
  of all concepts, unless its level is 0 or it is critical. The rule is written out here to
  be compared with \<^const>\<open>filterIrrelevantConcepts\<close>.
\<close>

definition meanImportance :: "concept list \<Rightarrow> real" where
  "meanImportance cs = sum_list (map importance cs) / real (length cs)"

definition droppedBySpec :: "concept list \<Rightarrow> concept \<Rightarrow> bool" where
  "droppedBySpec cs c \<longleftrightarrow>
     importance c < meanImportance cs * 0.4 \<and> \<not> (level c = 0 \<or> isCritical c)"

subsection \<open>Sample data\<close>

text \<open>
  The default configuration of lines 21-34, and two builders for the concepts and
  relationships of the examples: a concept before enrichment and formatting, and a
  relationship as stage 2 leaves it.
\<close>

definition defaultConfig :: config where
  "defaultConfig =
     \<lparr> maxConcepts = 20, style = js ''educational'',
       stages = \<lparr> organization = True, reasoning = True, enrichment = True,
                  validation = True, aesthetics = True, conclusion = True \<rparr>,
       includeExamples = True, includeDefinitions = True \<rparr>"

definition conceptOf :: "jsstring \<Rightarrow> jsstring \<Rightarrow> nat \<Rightarrow> real \<Rightarrow> nat \<Rightarrow> bool \<Rightarrow> concept" where
  "conceptOf i nm lvl imp freq crit =
     \<lparr> cid = i, name = nm, originalForm = nm, importance = imp, frequency = freq, level = lvl,
       firstOccurrence = 0, isCritical = crit, definition_of = None, examples = None,
       relatedTerms = None, classification = None, formatting = None \<rparr>"

definition relationOf :: "jsstring \<Rightarrow> jsstring \<Rightarrow> jsstring \<Rightarrow> real \<Rightarrow> nat \<Rightarrow> relationship" where
  "relationOf src tgt ty str shared =
     \<lparr> rid = js ''rel-'' @ src @ js ''-'' @ tgt, source = src, target = tgt, rtype = ty,
       strength = str, sharedSentences = shared, semanticCategory = None,
       visualWeight = Some \<lceil>str\<rceil> \<rparr>"

subsection \<open>Notions used in the statements\<close>

text \<open>
  The unordered pairs of a list; two concepts are linked in a text when their ids differ
  and some sentence mentions both; the number of sentences that mention both; the
  relationship that the double loop of \<^const>\<open>identifyConceptRelationships\<close> emits for a
  source and a target; and a result all of whose relationships join concepts of the result.
\<close>

fun pairsOf :: "'a list \<Rightarrow> ('a \<times> 'a) list" where
  "pairsOf [] = []"
| "pairsOf (x # xs) = map (Pair x) xs @ pairsOf xs"

definition linked :: "jsstring \<Rightarrow> concept \<Rightarrow> concept \<Rightarrow> bool" where
  "linked text a b \<longleftrightarrow>
     cid a \<noteq> cid b \<and> (\<exists>s \<in> set (sentencesOf text). mentions a s \<and> mentions b s)"

definition sharedCount :: "jsstring \<Rightarrow> concept \<Rightarrow> concept \<Rightarrow> nat" where
  "sharedCount text a b = length (filter (\<lambda>s. mentions a s \<and> mentions b s) (sentencesOf text))"

definition relOf :: "jsstring \<Rightarrow> concept \<Rightarrow> concept \<Rightarrow> relationship list" where
  "relOf text src tgt = relationBetween (filter (mentions src) (sentencesOf text)) src tgt"

definition endpointsKnown :: "result \<Rightarrow> bool" where
  "endpointsKnown r \<longleftrightarrow>
     (\<forall>rel \<in> set (relationships r).
        source rel \<in> cid ` set (concepts r) \<and> target rel \<in> cid ` set (concepts r))"

text \<open>Two concepts of a two-sentence text.\<close>

definition twoConcepts :: "concept list" where
  "twoConcepts = [conceptOf (js ''concept-0'') (js ''mapas'') 0 6 1 True,
                  conceptOf (js ''concept-1'') (js ''ideas'') 0 6 1 True]"

text \<open>Three concepts joined by two opposite relationships, for the coherence score.\<close>

definition threeConcepts :: "concept list" where
  "threeConcepts = [conceptOf (js ''concept-0'') (js ''mapas'') 0 6 1 True,
     conceptOf (js ''concept-1'') (js ''ideas'') 0 6 1 True,
     conceptOf (js ''concept-2'') (js ''redes'') 0 6 1 True]"

definition twoRelationships :: "relationship list" where
  "twoRelationships = [relationOf (js ''concept-0'') (js ''concept-1'') (js ''influye en'') 2 1,
     relationOf (js ''concept-1'') (js ''concept-0'') (js ''influye en'') 2 1]"

text \<open>A list of relationships without a loop and without a repeated (source, target, type).\<close>

definition wellFormedRelationships :: "relationship list \<Rightarrow> bool" where
  "wellFormedRelationships rs \<longleftrightarrow>
     (\<forall>r \<in> set rs. source r \<noteq> target r)
     \<and> distinct (map (\<lambda>r. (source r, target r, rtype r)) rs)"

text \<open>The eligible tokens of a text: the keys of the frequency table that the extractor sorts.\<close>

definition eligibleTokens :: "jsstring \<Rightarrow> jsstring list option" where
  "eligibleTokens text = map_option sortedWords (wordFrequency (splitRuns isSpace text))"

text \<open>The draws of \<^verbatim>\<open>Math.random\<close> that always give the first type of a category.\<close>

definition firstType :: "nat \<Rightarrow> nat" where
  "firstType i = 0"

text \<open>
  A text of two words, the concepts that the extractor makes of it and the relationships
  that stage 2 gives them when every draw is 0.
\<close>

definition sampleText :: jsstring where
  "sampleText = js ''mapas ideas''"

definition extracted :: "jsstring \<Rightarrow> jsstring \<Rightarrow> int \<Rightarrow> concept" where
  "extracted i nm pos =
     \<lparr> cid = i, name = nm, originalForm = nm, importance = 6, frequency = 1, level = 0,
       firstOccurrence = pos, isCritical = True, definition_of = None, examples = None,
       relatedTerms = None, classification = None, formatting = None \<rparr>"

abbreviation (input) e0 :: concept where
  "e0 \<equiv> extracted (js ''concept-0'') (js ''mapas'') 0"

abbreviation (input) e1 :: concept where
  "e1 \<equiv> extracted (js ''concept-1'') (js ''ideas'') 6"

definition weighted :: "jsstring \<Rightarrow> jsstring \<Rightarrow> int \<Rightarrow> relationship" where
  "weighted src tgt vw =
     \<lparr> rid = js ''rel-'' @ src @ js ''-'' @ tgt, source = src, target = tgt,
       rtype = js ''influye en'', strength = 2, sharedSentences = 1,
       semanticCategory = Some (js ''influencia''), visualWeight = Some vw \<rparr>"

text \<open>
  The lines of a text, and the lines that a reader of diagram source counts. Every line
  that the Mermaid renderer of \<^verbatim>\<open>fixed-conceptMapService.js\<close> (lines 438-545) emits
  for a node has a label after a bracket and a quote, and every line it emits for a
  relationship has an arrow followed by a label between bars; the two predicates hold of
  every line with these marks.
\<close>

fun linesOf :: "jsstring \<Rightarrow> jsstring list" where
  "linesOf [] = [[]]"
| "linesOf (c # cs) =
     (if c = nl then [] # linesOf cs
      else (case linesOf cs of [] \<Rightarrow> [[c]] | l # ls \<Rightarrow> (c # l) # ls))"

definition isLabeledEdgeLine :: "jsstring \<Rightarrow> bool" where
  "isLabeledEdgeLine l \<longleftrightarrow> includesStr l (js ''-->|'') \<or> includesStr l (js ''--> |'')"

definition isNodeLine :: "jsstring \<Rightarrow> bool" where
  "isNodeLine l \<longleftrightarrow> includesStr l (js ''[\"'')"

definition edgeLineCount :: "jsstring \<Rightarrow> nat" where
  "edgeLineCount s = length (filter isLabeledEdgeLine (linesOf s))"

definition nodeLineCount :: "jsstring \<Rightarrow> nat" where
  "nodeLineCount s = length (filter isNodeLine (linesOf s))"

text \<open>
  A string without a vertical bar and without an opening bracket; a concept, and a result,
  all of whose strings that the renderer prints are such.
\<close>

definition plain :: "jsstring \<Rightarrow> bool" where
  "plain s \<longleftrightarrow> 124 \<notin> set s \<and> 91 \<notin> set s"

definition plainConcept :: "concept \<Rightarrow> bool" where
  "plainConcept c \<longleftrightarrow>
     plain (name c) \<and> plain (originalForm c)
     \<and> (case definition_of c of None \<Rightarrow> True | Some d \<Rightarrow> plain d)
     \<and> (case examples c of None \<Rightarrow> True | Some es \<Rightarrow> list_all plain es)
     \<and> (case relatedTerms c of None \<Rightarrow> True | Some ts \<Rightarrow> list_all plain ts)"

definition plainEmojis :: "(jsstring \<rightharpoonup> jsstring) option \<Rightarrow> bool" where
  "plainEmojis e \<longleftrightarrow> (case e of None \<Rightarrow> True | Some m \<Rightarrow> (\<forall>v \<in> ran m. plain v))"

definition plainResult :: "result \<Rightarrow> bool" where
  "plainResult r \<longleftrightarrow>
     list_all plainConcept (concepts r)
     \<and> list_all (\<lambda>rel. plain (rtype rel)) (relationships r)
     \<and> plainEmojis (conceptEmojis r)"

section \<open>Properties\<close>

subsection \<open>Connected ids\<close>

lemma set_setAdd: "set (setAdd x acc) = insert x (set acc)"
  by (auto simp: setAdd_def)

lemma distinct_setAdd: "distinct acc \<Longrightarrow> distinct (setAdd x acc)"
  by (auto simp: setAdd_def)

lemma fold_connected_set:
  "set (fold (\<lambda>rel acc. setAdd (target rel) (setAdd (source rel) acc)) rs acc)
     = set acc \<union> source ` set rs \<union> target ` set rs"
  by (induction rs arbitrary: acc) (auto simp: set_setAdd)

lemma fold_connected_distinct:
  "distinct acc \<Longrightarrow>
     distinct (fold (\<lambda>rel acc. setAdd (target rel) (setAdd (source rel) acc)) rs acc)"
  by (induction rs arbitrary: acc) (auto simp: distinct_setAdd)

lemma connectedConceptIds_card:
  "length (connectedConceptIds rs) = card (source ` set rs \<union> target ` set rs)"
proof -
  have d: "distinct (connectedConceptIds rs)"
    unfolding connectedConceptIds_def by (rule fold_connected_distinct) simp
  have s: "set (connectedConceptIds rs) = source ` set rs \<union> target ` set rs"
    unfolding connectedConceptIds_def by (simp add: fold_connected_set)
  from d have "length (connectedConceptIds rs) = card (set (connectedConceptIds rs))"
    by (simp add: distinct_card)
  with s show ?thesis by simp
qed

subsection \<open>Validation\<close>

lemma set_redundant_fold:
  "set (fst (fold redundantStep cs st)) \<subseteq> set (fst st) \<union> set cs"
proof (induction cs arbitrary: st)
  case Nil
  then show ?case by simp
next
  case (Cons c cs)
  have "set (fst (redundantStep c st)) \<subseteq> set (fst st) \<union> {c}"
    by (auto simp: redundantStep_def Let_def)
  with Cons.IH [of "redundantStep c st"] show ?case by auto
qed

lemma set_removeRedundantConcepts: "set (removeRedundantConcepts cs) \<subseteq> set cs"
  using set_redundant_fold [of cs "([], [])"] by (simp add: removeRedundantConcepts_def)

lemma concepts_step4:
  "concepts (step4_VerifyAndValidate r)
     = removeRedundantConcepts (filterIrrelevantConcepts (concepts r))"
  by (simp add: step4_VerifyAndValidate_def Let_def)

lemma relationships_step4:
  "relationships (step4_VerifyAndValidate r)
     = validateRelationshipCoherence (relationships r) (concepts (step4_VerifyAndValidate r))"
  by (simp add: step4_VerifyAndValidate_def Let_def)

text \<open>
  Claim C7, as the code has it. The relevance filter of the validation stage drops a
  concept exactly when its importance is at most 1.5, its frequency is at most 1 and it is
  not critical; neither the mean importance nor the level takes part. A concept that the
  filter drops is absent from the validated result.
\<close>

theorem filterIrrelevantConcepts_rule:
  assumes "c \<in> set (concepts r)"
  shows "(c \<notin> set (filterIrrelevantConcepts (concepts r)))
           = (importance c \<le> 1.5 \<and> frequency c \<le> 1 \<and> \<not> isCritical c)
       \<and> (importance c \<le> 1.5 \<and> frequency c \<le> 1 \<and> \<not> isCritical c
            \<longrightarrow> c \<notin> set (concepts (step4_VerifyAndValidate r)))"
proof -
  have a: "(c \<notin> set (filterIrrelevantConcepts (concepts r)))
           = (importance c \<le> 1.5 \<and> frequency c \<le> 1 \<and> \<not> isCritical c)"
    using assms by (auto simp: filterIrrelevantConcepts_def)
  have "c \<notin> set (concepts (step4_VerifyAndValidate r))"
    if "c \<notin> set (filterIrrelevantConcepts (concepts r))"
    using that set_removeRedundantConcepts [of "filterIrrelevantConcepts (concepts r)"]
    by (auto simp: concepts_step4)
  with a show ?thesis by blast
qed

text \<open>
  The rule at work: of a critical concept of importance 2 and a concept of level 2,
  importance 1.4 and frequency 1, validation keeps the first and drops the second.
\<close>

theorem filterIrrelevantConcepts_rule_witness:
  "conceptOf (js ''concept-11'') (js ''redes'') 2 1.4 1 False
     \<notin> set (concepts (step4_VerifyAndValidate
         ((initialResult [])
            \<lparr> concepts := [conceptOf (js ''concept-0'') (js ''mapas'') 0 2 1 True,
                           conceptOf (js ''concept-11'') (js ''redes'') 2 1.4 1 False] \<rparr>)))"
  using filterIrrelevantConcepts_rule
    [of "conceptOf (js ''concept-11'') (js ''redes'') 2 1.4 1 False"
        "(initialResult [])
            \<lparr> concepts := [conceptOf (js ''concept-0'') (js ''mapas'') 0 2 1 True,
                           conceptOf (js ''concept-11'') (js ''redes'') 2 1.4 1 False] \<rparr>"]
  by (simp add: conceptOf_def)

text \<open>
  Against claim C7 as stated: in that list the mean importance is 1.7, so the rule of the
  specification keeps the second concept (1.4 is not below 0.68), and the code drops it.
\<close>

theorem filterIrrelevantConcepts_counterexample:
  "\<not> droppedBySpec
       [conceptOf (js ''concept-0'') (js ''mapas'') 0 2 1 True,
        conceptOf (js ''concept-11'') (js ''redes'') 2 1.4 1 False]
       (conceptOf (js ''concept-11'') (js ''redes'') 2 1.4 1 False)
   \<and> conceptOf (js ''concept-11'') (js ''redes'') 2 1.4 1 False
       \<notin> set (filterIrrelevantConcepts
           [conceptOf (js ''concept-0'') (js ''mapas'') 0 2 1 True,
            conceptOf (js ''concept-11'') (js ''redes'') 2 1.4 1 False])"
  by (simp add: droppedBySpec_def meanImportance_def filterIrrelevantConcepts_def conceptOf_def)

subsection \<open>The coherence score\<close>

text \<open>
  Claim C2 fails on the code. Two concepts that share three sentences are joined in both
  directions by relationships of strength 5. All concepts are connected (0.4), there are
  twice as many relationships as unordered pairs (0.6) and all are strong (0.3): the score
  is 1.3.
\<close>

theorem coherenceScore_above_one:
  "calculateCoherenceScore
     [conceptOf (js ''concept-0'') (js ''mapas'') 0 6 3 True,
      conceptOf (js ''concept-1'') (js ''ideas'') 0 6 3 True]
     [relationOf (js ''concept-0'') (js ''concept-1'') (js ''causa'') 5 3,
      relationOf (js ''concept-1'') (js ''concept-0'') (js ''causa'') 5 3]
   = Num 1.3"
  by (simp add: calculateCoherenceScore_def connectedConceptIds_def setAdd_def
      strongRelationships_def conceptOf_def relationOf_def)

lemma touched_bound:
  assumes "\<forall>rel \<in> set rs. source rel \<in> cid ` set cs \<and> target rel \<in> cid ` set cs"
  shows "card (source ` set rs \<union> target ` set rs) \<le> length cs"
proof -
  from assms have "source ` set rs \<union> target ` set rs \<subseteq> cid ` set cs" by auto
  then have "card (source ` set rs \<union> target ` set rs) \<le> card (cid ` set cs)"
    by (simp add: card_mono)
  also have "\<dots> \<le> card (set cs)" by (simp add: card_image_le)
  also have "\<dots> \<le> length cs" by (rule card_length)
  finally show ?thesis .
qed

lemma score_of_two_or_more:
  assumes "2 \<le> length cs"
  shows "calculateCoherenceScore cs rs =
     Num (0.4 * (real (card (source ` set rs \<union> target ` set rs)) / real (length cs))
        + 0.3 * (real (length rs) / (real (length cs) * (real (length cs) - 1) / 2))
        + 0.3 * (real (length (filter (\<lambda>rel. 3 < strength rel) rs)) / real (max 1 (length rs))))"
proof -
  from assms have "cs \<noteq> []" "length cs \<noteq> Suc 0" by auto
  then show ?thesis
    by (simp add: calculateCoherenceScore_def Let_def connectedConceptIds_card
        strongRelationships_def)
qed

text \<open>
  Claim C3, as the code has it. Take a validated graph (every endpoint is the id of a
  concept) of at least two concepts and of no more relationships than there are unordered
  pairs of concepts. Its score is 0.4 times the connectivity ratio (the distinct ids touched
  by an edge over the number of concepts) plus 0.3 times the number of edges over the
  number of unordered pairs plus 0.3 times the share of edges of strength above 3.
\<close>

theorem calculateCoherenceScore_formula:
  assumes "2 \<le> length cs"
    and "\<forall>rel \<in> set rs. source rel \<in> cid ` set cs \<and> target rel \<in> cid ` set cs"
    and "real (length rs) \<le> real (length cs) * (real (length cs) - 1) / 2"
  shows "calculateCoherenceScore cs rs =
     Num (0.4 * (real (card (source ` set rs \<union> target ` set rs)) / real (length cs))
        + 0.3 * (real (length rs) / (real (length cs) * (real (length cs) - 1) / 2))
        + 0.3 * (real (length (filter (\<lambda>rel. 3 < strength rel) rs)) / real (max 1 (length rs))))"
  using assms(1) by (rule score_of_two_or_more)

text \<open>On such a graph each of the three ratios is at most 1, and so is the score.\<close>

lemma calculateCoherenceScore_in_range:
  assumes "2 \<le> length cs"
    and "\<forall>rel \<in> set rs. source rel \<in> cid ` set cs \<and> target rel \<in> cid ` set cs"
    and "real (length rs) \<le> real (length cs) * (real (length cs) - 1) / 2"
  shows "\<exists>x. calculateCoherenceScore cs rs = Num x \<and> 0 \<le> x \<and> x \<le> 1"
proof -
  let ?n = "real (length cs)"
  let ?a = "real (card (source ` set rs \<union> target ` set rs)) / ?n"
  let ?b = "real (length rs) / (?n * (?n - 1) / 2)"
  let ?c = "real (length (filter (\<lambda>rel. 3 < strength rel) rs)) / real (max 1 (length rs))"
  from assms(1) have n: "2 \<le> ?n" by simp
  then have "0 < ?n" "0 < ?n - 1" by linarith+
  then have "0 < ?n * (?n - 1)" by (rule mult_pos_pos)
  then have p: "0 < ?n * (?n - 1) / 2" by simp
  have a: "0 \<le> ?a" "?a \<le> 1"
    using touched_bound [OF assms(2)] n by (simp_all add: divide_le_eq_1)
  have b: "0 \<le> ?b" "?b \<le> 1"
    using assms(3) p by (simp_all add: divide_le_eq_1)
  have "length (filter (\<lambda>rel. 3 < strength rel) rs) \<le> max 1 (length rs)"
    by (rule order_trans [OF length_filter_le]) simp
  then have c: "0 \<le> ?c" "?c \<le> 1"
    by (simp_all add: divide_le_eq_1)
  have "calculateCoherenceScore cs rs = Num (0.4 * ?a + 0.3 * ?b + 0.3 * ?c)"
    using assms(1) by (rule score_of_two_or_more)
  moreover have "0 \<le> 0.4 * x + 0.3 * y + 0.3 * z \<and> 0.4 * x + 0.3 * y + 0.3 * z \<le> 1"
    if "0 \<le> x" "x \<le> 1" "0 \<le> y" "y \<le> 1" "0 \<le> z" "z \<le> 1" for x y z :: real
    using that by linarith
  from this [OF a b c]
  have "0 \<le> 0.4 * ?a + 0.3 * ?b + 0.3 * ?c \<and> 0.4 * ?a + 0.3 * ?b + 0.3 * ?c \<le> 1" .
  ultimately show ?thesis by blast
qed

text \<open>
  The graph of the text \<^verbatim>\<open>Mapas ideas. Redes\<close>: three concepts, and two relationships
  between the two that share a sentence. The code gives 0.4 * 2/3 + 0.3 * 2/3 = 7/15.
\<close>

theorem calculateCoherenceScore_formula_witness:
  "calculateCoherenceScore threeConcepts twoRelationships = Num (7 / 15)"
proof -
  have 1: "2 \<le> length threeConcepts"
    by (simp add: threeConcepts_def)
  have 2: "\<forall>rel \<in> set twoRelationships.
      source rel \<in> cid ` set threeConcepts \<and> target rel \<in> cid ` set threeConcepts"
    by (simp add: threeConcepts_def twoRelationships_def conceptOf_def relationOf_def)
  have 3: "real (length twoRelationships)
      \<le> real (length threeConcepts) * (real (length threeConcepts) - 1) / 2"
    by (simp add: threeConcepts_def twoRelationships_def)
  have 4: "source ` set twoRelationships \<union> target ` set twoRelationships
      = {js ''concept-0'', js ''concept-1''}"
    by (auto simp: twoRelationships_def relationOf_def)
  have 5: "filter (\<lambda>rel. 3 < strength rel) twoRelationships = []"
    by (simp add: twoRelationships_def relationOf_def)
  have 6: "length threeConcepts = 3" "length twoRelationships = 2"
    by (simp_all add: threeConcepts_def twoRelationships_def)
  show ?thesis
    unfolding calculateCoherenceScore_formula [OF 1 2 3] 4 5 6 by simp
qed

text \<open>
  Against claim C3 as stated: on that graph the three signals of the specification,
  weighted 0.5, 0.3 and 0.2, give 1/3 + 0.15 + 13/75, which is not 7/15.
\<close>

theorem calculateCoherenceScore_counterexample:
  "calculateCoherenceScore threeConcepts twoRelationships
   \<noteq> Num (0.5 * connectivityRatio threeConcepts twoRelationships
        + 0.3 * levelBalanceScore threeConcepts
        + 0.2 * densityScore threeConcepts twoRelationships)"
  by (simp add: calculateCoherenceScore_def connectedConceptIds_def setAdd_def
      strongRelationships_def conceptOf_def relationOf_def connectivityRatio_def
      levelBalanceScore_def levelsOf_def densityScore_def threeConcepts_def
      twoRelationships_def)

subsection \<open>The limitation to \<open>maxConcepts\<close>\<close>

lemma sliceTo_take: "0 \<le> n \<Longrightarrow> sliceTo n xs = take (nat n) xs"
  by (simp add: sliceTo_def)

lemma take_sorted_dominates:
  assumes "sorted (map f xs)" "a \<in> set (take n xs)" "b \<in> set (drop n xs)"
  shows "f a \<le> f b"
proof -
  have "sorted (map f (take n xs) @ map f (drop n xs))"
    using assms(1) by (metis append_take_drop_id map_append)
  then show ?thesis using assms(2,3) by (auto simp: sorted_append)
qed

lemma mset_minus_take: "mset xs - mset (take n xs) = mset (drop n xs)"
proof -
  have "mset xs = mset (take n xs) + mset (drop n xs)"
    by (metis append_take_drop_id mset_append)
  then show ?thesis by simp
qed

lemma limitConcepts_keeps_top:
  assumes "0 \<le> maxC" and "maxC < int (length (concepts r))"
  shows "length (concepts (limitConcepts maxC r)) = nat maxC
    \<and> mset (concepts (limitConcepts maxC r)) \<subseteq># mset (concepts r)
    \<and> sorted (map (\<lambda>c. - importance c) (concepts (limitConcepts maxC r)))
    \<and> (\<forall>a \<in> set (concepts (limitConcepts maxC r)).
         \<forall>b \<in># mset (concepts r) - mset (concepts (limitConcepts maxC r)).
           importance b \<le> importance a)
    \<and> relationships (limitConcepts maxC r)
        = filter (\<lambda>rel. source rel \<in> cid ` set (concepts (limitConcepts maxC r))
                      \<and> target rel \<in> cid ` set (concepts (limitConcepts maxC r)))
            (relationships r)
    \<and> limitationApplied (metadata (limitConcepts maxC r))
        = Some \<lparr> lim_conceptsRemoved = int (length (concepts r)) - maxC,
                 lim_relationshipsRemoved =
                   int (length (relationships r))
                     - int (length (relationships (limitConcepts maxC r))) \<rparr>"
proof -
  let ?s = "sort_key (\<lambda>c. - importance c) (concepts r)"
  have k: "concepts (limitConcepts maxC r) = take (nat maxC) ?s"
    using assms by (simp add: limitConcepts_def Let_def sliceTo_take)
  have rl: "relationships (limitConcepts maxC r)
      = filter (\<lambda>rel. source rel \<in> cid ` set (take (nat maxC) ?s)
                    \<and> target rel \<in> cid ` set (take (nat maxC) ?s)) (relationships r)"
    using assms by (simp add: limitConcepts_def Let_def sliceTo_take)
  have md: "limitationApplied (metadata (limitConcepts maxC r))
      = Some \<lparr> lim_conceptsRemoved = int (length (concepts r)) - maxC,
               lim_relationshipsRemoved = int (length (relationships r))
                  - int (length (filter (\<lambda>rel. source rel \<in> cid ` set (take (nat maxC) ?s)
                    \<and> target rel \<in> cid ` set (take (nat maxC) ?s)) (relationships r))) \<rparr>"
    using assms by (simp add: limitConcepts_def Let_def sliceTo_take)
  have len: "length (take (nat maxC) ?s) = nat maxC"
    using assms by simp
  have sub: "mset (take (nat maxC) ?s) \<subseteq># mset (concepts r)"
  proof -
    have "mset (take (nat maxC) ?s) \<subseteq># mset ?s"
      by (metis append_take_drop_id mset_append mset_subset_eq_add_left)
    then show ?thesis by simp
  qed
  have srt: "sorted (map (\<lambda>c. - importance c) ?s)"
    by (rule sorted_sort_key)
  have srt': "sorted (map (\<lambda>c. - importance c) (take (nat maxC) ?s))"
    using sorted_wrt_take [OF srt, of "nat maxC"] by (simp add: take_map)
  have dom: "\<forall>a \<in> set (take (nat maxC) ?s).
         \<forall>b \<in># mset (concepts r) - mset (take (nat maxC) ?s). importance b \<le> importance a"
  proof (intro ballI)
    fix a b
    assume a: "a \<in> set (take (nat maxC) ?s)"
      and b: "b \<in># mset (concepts r) - mset (take (nat maxC) ?s)"
    have "mset (concepts r) - mset (take (nat maxC) ?s) = mset (drop (nat maxC) ?s)"
      using mset_minus_take [of ?s "nat maxC"] by simp
    with b have "b \<in> set (drop (nat maxC) ?s)" by simp
    with take_sorted_dominates [OF srt a] have "- importance a \<le> - importance b" by blast
    then show "importance b \<le> importance a" by simp
  qed
  show ?thesis
    unfolding k using len sub srt' dom rl md unfolding k by simp
qed

subsection \<open>Relationships\<close>

lemma identify_relOf:
  "identifyConceptRelationships text cs
     = concat (map (\<lambda>src. concat (map (relOf text src) cs)) cs)"
  by (simp add: identifyConceptRelationships_def relOf_def [abs_def] Let_def)

lemma shared_filter:
  "length (filter (mentions b) (filter (mentions a) ss))
     = length (filter (\<lambda>s. mentions a s \<and> mentions b s) ss)"
  by (simp add: conj_commute)

lemma sharedCount_sym: "sharedCount text a b = sharedCount text b a"
  by (simp add: sharedCount_def conj_commute)

lemma sharedCount_pos:
  "0 < sharedCount text a b \<longleftrightarrow> (\<exists>s \<in> set (sentencesOf text). mentions a s \<and> mentions b s)"
  by (auto simp: sharedCount_def filter_empty_conv)

lemma relOf_eq:
  "relOf text a b =
     (if linked text a b then
        [\<lparr> rid = js ''rel-'' @ cid a @ js ''-'' @ cid b,
           source = cid a, target = cid b, rtype = js ''relacionado con'',
           strength = real (min (sharedCount text a b + 1) 5),
           sharedSentences = sharedCount text a b,
           semanticCategory = None, visualWeight = None \<rparr>]
      else [])"
  using sharedCount_pos [of "text" a b]
  by (simp add: relOf_def relationBetween_def shared_filter sharedCount_def [symmetric] linked_def
      Let_def)

lemma linked_sym: "linked text a b = linked text b a"
  by (auto simp: linked_def)

lemma linked_irrefl: "\<not> linked text a a"
  by (simp add: linked_def)

lemma in_identify:
  "r \<in> set (identifyConceptRelationships text cs) \<longleftrightarrow>
     (\<exists>a \<in> set cs. \<exists>b \<in> set cs. linked text a b \<and> relOf text a b = [r])"
  by (auto simp: identify_relOf relOf_eq split: if_splits)

lemma source_relOf: "r \<in> set (relOf text a b) \<Longrightarrow> source r = cid a \<and> target r = cid b \<and> cid a \<noteq> cid b"
  by (auto simp: relOf_eq linked_def split: if_splits)

lemma pairs_relOf:
  "map (\<lambda>r. (source r, target r)) (relOf text a b)
     = map (\<lambda>p. (cid (fst p), cid (snd p))) (filter (\<lambda>p. linked text (fst p) (snd p)) [(a, b)])"
  by (simp add: relOf_eq)

lemma pairs_inner:
  "map (\<lambda>r. (source r, target r)) (concat (map (relOf text a) ys))
     = map (\<lambda>p. (cid (fst p), cid (snd p)))
         (filter (\<lambda>p. linked text (fst p) (snd p)) (map (Pair a) ys))"
  by (induction ys) (simp_all add: relOf_eq)

lemma pairs_outer:
  "map (\<lambda>r. (source r, target r)) (concat (map (\<lambda>a. concat (map (relOf text a) ys)) xs))
     = map (\<lambda>p. (cid (fst p), cid (snd p)))
         (filter (\<lambda>p. linked text (fst p) (snd p)) (List.product xs ys))"
  by (induction xs) (simp_all add: pairs_inner)

lemma product_ids:
  "map (\<lambda>p. (cid (fst p), cid (snd p))) (List.product xs ys)
     = List.product (map cid xs) (map cid ys)"
  by (induction xs) (simp_all add: comp_def)

lemma distinct_map_filter_of: "distinct (map f xs) \<Longrightarrow> distinct (map f (filter P xs))"
  by (induction xs) auto

lemma distinct_pairs_identify:
  assumes "distinct (map cid cs)"
  shows "distinct (map (\<lambda>r. (source r, target r)) (identifyConceptRelationships text cs))"
proof -
  have "distinct (List.product (map cid cs) (map cid cs))"
    using assms by (simp add: distinct_product)
  then have "distinct (map (\<lambda>p. (cid (fst p), cid (snd p))) (List.product cs cs))"
    by (simp add: product_ids)
  then show ?thesis
    unfolding identify_relOf pairs_outer by (rule distinct_map_filter_of)
qed

lemma classify_fields:
  "source (classifyOne random3 ir) = source (snd ir)"
  "target (classifyOne random3 ir) = target (snd ir)"
  "strength (classifyOne random3 ir) = strength (snd ir)"
  "sharedSentences (classifyOne random3 ir) = sharedSentences (snd ir)"
  "rid (classifyOne random3 ir) = rid (snd ir)"
  by (simp_all add: classifyOne_def Let_def)

lemma assign_fields:
  "source (assignOne r) = source r"
  "target (assignOne r) = target r"
  "rtype (assignOne r) = rtype r"
  "sharedSentences (assignOne r) = sharedSentences r"
  "rid (assignOne r) = rid r"
  by (simp_all add: assignOne_def Let_def)

lemma map_snd_enumerate: "map snd (enumerate n xs) = xs"
  by (simp add: enumerate_eq_zip)

lemma endpoints_analyze:
  "map (\<lambda>r. (source r, target r)) (analyzeRelationships random3 text cs)
     = map (\<lambda>r. (source r, target r)) (identifyConceptRelationships text cs)"
proof -
  have "map (\<lambda>r. (source r, target r)) (analyzeRelationships random3 text cs)
      = map ((\<lambda>r. (source r, target r)) \<circ> snd)
          (enumerate 0 (identifyConceptRelationships text cs))"
    by (simp add: analyzeRelationships_def assignRelationshipStrength_def
        classifyRelationshipTypes_def comp_def assign_fields classify_fields)
  also have "\<dots> = map (\<lambda>r. (source r, target r))
      (map snd (enumerate 0 (identifyConceptRelationships text cs)))"
    by (simp only: map_map)
  also have "\<dots> = map (\<lambda>r. (source r, target r)) (identifyConceptRelationships text cs)"
    by (simp only: map_snd_enumerate)
  finally show ?thesis .
qed

lemma distinct_map_finer:
  assumes "distinct (map (\<lambda>x. g (h x)) xs)"
  shows "distinct (map h xs)"
proof -
  from assms have "distinct xs" "inj_on (\<lambda>x. g (h x)) (set xs)"
    by (simp_all add: distinct_map)
  moreover from this have "inj_on h (set xs)"
    by (auto simp: inj_on_def)
  ultimately show ?thesis by (simp add: distinct_map)
qed

lemma no_loops:
  "\<forall>r \<in> set (identifyConceptRelationships text cs). source r \<noteq> target r"
  "\<forall>r \<in> set (analyzeRelationships random3 text cs). source r \<noteq> target r"
proof -
  show loops: "\<forall>r \<in> set (identifyConceptRelationships text cs). source r \<noteq> target r"
    by (auto simp: identify_relOf dest: source_relOf)
  show "\<forall>r \<in> set (analyzeRelationships random3 text cs). source r \<noteq> target r"
  proof
    fix r assume "r \<in> set (analyzeRelationships random3 text cs)"
    then have "(source r, target r)
        \<in> set (map (\<lambda>r. (source r, target r)) (analyzeRelationships random3 text cs))"
      by (simp add: image_iff) blast
    then have "(source r, target r)
        \<in> set (map (\<lambda>r. (source r, target r)) (identifyConceptRelationships text cs))"
      by (simp only: endpoints_analyze)
    with loops show "source r \<noteq> target r" by auto
  qed
qed

lemma no_loops_no_duplicates:
  assumes "distinct (map cid cs)"
  shows "wellFormedRelationships (identifyConceptRelationships text cs)
     \<and> wellFormedRelationships (analyzeRelationships random3 text cs)"
proof -
  have d: "distinct (map (\<lambda>r. (source r, target r)) (identifyConceptRelationships text cs))"
    using assms by (rule distinct_pairs_identify)
  have d': "distinct (map (\<lambda>r. (source r, target r)) (analyzeRelationships random3 text cs))"
    using d by (simp only: endpoints_analyze)
  have t: "distinct (map (\<lambda>r. (source r, target r, rtype r)) rs)"
    if "distinct (map (\<lambda>r. (source r, target r)) rs)" for rs :: "relationship list"
  proof (rule distinct_map_finer [where g = "\<lambda>p. (fst p, fst (snd p))"])
    show "distinct (map (\<lambda>x. (fst (source x, target x, rtype x),
              fst (snd (source x, target x, rtype x)))) rs)"
      using that by simp
  qed
  from no_loops t [OF d] t [OF d'] show ?thesis
    by (simp add: wellFormedRelationships_def)
qed

text \<open>The ids that the extractor gives are distinct, and sorting only permutes concepts.\<close>

lemma decimalValue_snoc: "decimalValue (xs @ [d]) = decimalValue xs * 10 + (d - 48)"
  by (simp add: decimalValue_def)

lemma decimalValue_showNat: "decimalValue (showNat n) = n"
proof (induction n rule: showNat.induct)
  case (1 n)
  show ?case
  proof (cases "n < 10")
    case True
    then have "showNat n = [48 + n]" by (subst showNat.simps) simp
    then show ?thesis by (simp add: decimalValue_def)
  next
    case False
    then have "showNat n = showNat (n div 10) @ [48 + n mod 10]"
      by (subst showNat.simps) simp
    with False "1.IH" show ?thesis by (simp add: decimalValue_snoc)
  qed
qed

lemma inj_showNat: "inj showNat"
  by (rule inj_on_inverseI [where g = decimalValue]) (rule decimalValue_showNat)

lemma cid_mkConcept: "cid (mkConcept text freqs n iw) = js ''concept-'' @ showNat (fst iw)"
  by (simp add: mkConcept_def Let_def del: showNat.simps)

lemma map_index_enumerate: "map (\<lambda>x. f (fst x)) (enumerate 0 ws) = map f [0..<length ws]"
proof -
  have "map (\<lambda>x. f (fst x)) xs = map f (map fst xs)" for xs :: "(nat \<times> 'b) list"
    by (simp add: comp_def)
  then have "map (\<lambda>x. f (fst x)) (enumerate 0 ws) = map f (map fst (enumerate 0 ws))" .
  also have "map fst (enumerate 0 ws) = [0..<length ws]"
    by (simp add: map_fst_enumerate)
  finally show ?thesis .
qed

lemma distinct_ids_extracted:
  assumes "extractMainConcepts text = Some cs"
  shows "distinct (map cid cs)"
proof -
  from assms obtain freqs ws where
    cs: "cs = map (mkConcept text freqs (length (splitRuns isSpace text))) (enumerate 0 ws)"
    by (auto simp: extractMainConcepts_def Let_def split: option.splits)
  have "map cid cs = map (\<lambda>x. js ''concept-'' @ showNat (fst x)) (enumerate 0 ws)"
    unfolding cs by (simp add: cid_mkConcept comp_def del: showNat.simps)
  also have "\<dots> = map (\<lambda>i. js ''concept-'' @ showNat i) [0..<length ws]"
    by (rule map_index_enumerate)
  finally have "map cid cs = map (\<lambda>i. js ''concept-'' @ showNat i) [0..<length ws]" .
  moreover have "inj (\<lambda>i. js ''concept-'' @ showNat i)"
    using inj_showNat by (auto simp: inj_def simp del: showNat.simps)
  ultimately show ?thesis
    by (simp add: distinct_map inj_on_subset [OF _ subset_UNIV] del: showNat.simps)
qed

lemma mset_filter_levels:
  "distinct ls \<Longrightarrow>
     sum_list (map (\<lambda>l. mset (filter (\<lambda>c. level c = l) xs)) ls)
       = mset (filter (\<lambda>c. level c \<in> set ls) xs)"
proof (induction ls)
  case Nil
  then show ?case by simp
next
  case (Cons a ls)
  have "mset (filter (\<lambda>c. level c = a) xs) + mset (filter (\<lambda>c. level c \<in> set ls) xs)
      = mset (filter (\<lambda>c. level c = a \<or> level c \<in> set ls) xs)"
    using Cons.prems by (induction xs) auto
  with Cons show ?case by simp
qed

lemma mset_sortConceptsByRelevance: "mset (sortConceptsByRelevance cs) = mset cs"
proof -
  let ?xs = "sort_key level cs"
  have "mset (sortConceptsByRelevance cs)
      = sum_list (map (\<lambda>l. mset (filter (\<lambda>c. level c = l) ?xs)) (levelKeys ?xs))"
    by (simp add: sortConceptsByRelevance_def Let_def mset_concat comp_def)
  also have "\<dots> = mset (filter (\<lambda>c. level c \<in> set (levelKeys ?xs)) ?xs)"
    by (rule mset_filter_levels) (simp add: levelKeys_def)
  also have "\<dots> = mset ?xs"
    by (simp add: levelKeys_def)
  finally show ?thesis by simp
qed

lemma distinct_ids_sorted:
  assumes "distinct (map cid cs)"
  shows "distinct (map cid (sortConceptsByRelevance cs))"
proof -
  have "mset (map cid (sortConceptsByRelevance cs)) = mset (map cid cs)"
    by (simp add: mset_sortConceptsByRelevance)
  with assms show ?thesis
    by (metis mset_eq_imp_distinct_iff)
qed

text \<open>
  Claim C9. No relationship that stage 2 detects, classifies and weights joins a concept to
  itself, whatever the concept list and the types drawn. For concepts with pairwise
  distinct ids no two relationships have the same source, target and type either; and the
  concepts that stage 1 hands to stage 2 have pairwise distinct ids (\<^verbatim>\<open>concept-0\<close>,
  \<^verbatim>\<open>concept-1\<close>, ...), so both hold of every list of relationships of the pipeline.
\<close>

theorem analyzeRelationships_no_loops_no_duplicates:
  "(\<forall>r \<in> set (identifyConceptRelationships text cs). source r \<noteq> target r)
   \<and> (\<forall>r \<in> set (analyzeRelationships random3 text cs). source r \<noteq> target r)
   \<and> (distinct (map cid cs) \<longrightarrow>
      wellFormedRelationships (identifyConceptRelationships text cs)
      \<and> wellFormedRelationships (analyzeRelationships random3 text cs))
   \<and> (extractMainConcepts text = Some mainConcepts \<longrightarrow>
      distinct (map cid (sortConceptsByRelevance mainConcepts))
      \<and> wellFormedRelationships
          (identifyConceptRelationships text (sortConceptsByRelevance mainConcepts))
      \<and> wellFormedRelationships
          (analyzeRelationships random3 text (sortConceptsByRelevance mainConcepts)))"
proof (intro conjI impI)
  assume "extractMainConcepts text = Some mainConcepts"
  then have "distinct (map cid mainConcepts)"
    by (rule distinct_ids_extracted)
  then show d: "distinct (map cid (sortConceptsByRelevance mainConcepts))"
    by (rule distinct_ids_sorted)
  from no_loops_no_duplicates [OF d]
  show "wellFormedRelationships
      (identifyConceptRelationships text (sortConceptsByRelevance mainConcepts))"
    and "wellFormedRelationships
      (analyzeRelationships random3 text (sortConceptsByRelevance mainConcepts))"
    by blast+
qed (use no_loops no_loops_no_duplicates in blast)+

lemma length_inner: "length (concat (map (relOf text a) ys)) = length (filter (linked text a) ys)"
  by (induction ys) (simp_all add: relOf_eq)

lemma length_outer:
  "length (concat (map (\<lambda>a. concat (map (relOf text a) ys)) xs))
     = sum_list (map (\<lambda>a. length (filter (linked text a) ys)) xs)"
  by (induction xs) (simp_all add: length_inner)

lemma length_identify:
  "length (identifyConceptRelationships text cs)
     = sum_list (map (\<lambda>a. length (filter (linked text a) cs)) cs)"
  by (simp only: identify_relOf length_outer)

lemma count_cons:
  "sum_list (map (\<lambda>a. length (filter (linked text a) (y # ys))) xs)
     = length (filter (\<lambda>a. linked text a y) xs)
       + sum_list (map (\<lambda>a. length (filter (linked text a) ys)) xs)"
  by (induction xs) auto

lemma count_pairs:
  "sum_list (map (\<lambda>a. length (filter (linked text a) cs)) cs)
     = 2 * length (filter (\<lambda>p. linked text (fst p) (snd p)) (pairsOf cs))"
proof (induction cs)
  case Nil
  then show ?case by simp
next
  case (Cons x xs)
  let ?a = "length (filter (linked text x) xs)"
  let ?b = "length (filter (\<lambda>a. linked text a x) xs)"
  let ?S = "sum_list (map (\<lambda>a. length (filter (linked text a) xs)) xs)"
  let ?P = "length (filter (\<lambda>p. linked text (fst p) (snd p)) (pairsOf xs))"
  have sym: "?b = ?a"
    by (simp add: linked_sym [of "text" _ x])
  have A: "sum_list (map (\<lambda>a. length (filter (linked text a) (x # xs))) (x # xs))
      = ?a + (?b + ?S)"
    using count_cons [of "text" x xs xs] by (simp add: linked_irrefl)
  have B: "length (filter (\<lambda>p. linked text (fst p) (snd p)) (pairsOf (x # xs))) = ?a + ?P"
    by (simp add: comp_def)
  from sym Cons.IH have "?a + (?b + ?S) = 2 * (?a + ?P)"
    by simp
  with A B show ?case
    by (simp only:)
qed

lemma length_identify_pairs:
  "length (identifyConceptRelationships text cs)
     = 2 * length (filter (\<lambda>p. linked text (fst p) (snd p)) (pairsOf cs))"
  by (simp only: length_identify count_pairs)

text \<open>
  Claim C10. Every detected relationship has strength \<open>min (sharedSentences + 1) 5\<close> and a
  mirror with the same count and strength; for concepts \<open>a\<close> and \<open>b\<close> of different ids
  there is a relationship from \<open>a\<close> to \<open>b\<close> exactly when there is one from \<open>b\<close> to \<open>a\<close>;
  and there are twice as many relationships as linked unordered pairs of concepts.
\<close>

theorem relationships_are_mirrored:
  "(\<forall>r \<in> set (identifyConceptRelationships text cs).
      strength r = real (min (sharedSentences r + 1) 5)
      \<and> (\<exists>r' \<in> set (identifyConceptRelationships text cs).
            source r' = target r \<and> target r' = source r
            \<and> sharedSentences r' = sharedSentences r \<and> strength r' = strength r))
   \<and> (\<forall>a \<in> set cs. \<forall>b \<in> set cs. cid a \<noteq> cid b \<longrightarrow>
        (\<exists>r \<in> set (identifyConceptRelationships text cs). source r = cid a \<and> target r = cid b)
          = (\<exists>r \<in> set (identifyConceptRelationships text cs). source r = cid b \<and> target r = cid a))
   \<and> length (identifyConceptRelationships text cs)
        = 2 * length (filter (\<lambda>p. linked text (fst p) (snd p)) (pairsOf cs))"
proof -
  let ?R = "identifyConceptRelationships text cs"
  have m: "strength r = real (min (sharedSentences r + 1) 5)
      \<and> (\<exists>r' \<in> set ?R. source r' = target r \<and> target r' = source r
            \<and> sharedSentences r' = sharedSentences r \<and> strength r' = strength r)"
    if "r \<in> set ?R" for r
  proof -
    from that obtain a b where ab: "a \<in> set cs" "b \<in> set cs" "linked text a b"
      and r: "relOf text a b = [r]"
      by (auto simp: in_identify)
    from ab have ba: "linked text b a" by (simp add: linked_sym)
    define r' where "r' = hd (relOf text b a)"
    from ba have r': "relOf text b a = [r']"
      by (simp add: r'_def relOf_eq)
    with ab ba have "r' \<in> set ?R"
      by (auto simp: in_identify)
    moreover from r ab have rf: "source r = cid a" "target r = cid b"
      "sharedSentences r = sharedCount text a b"
      "strength r = real (min (sharedCount text a b + 1) 5)"
      by (auto simp: relOf_eq)
    moreover from r' ba have "source r' = cid b" "target r' = cid a"
      "sharedSentences r' = sharedCount text b a"
      "strength r' = real (min (sharedCount text b a + 1) 5)"
      by (auto simp: relOf_eq)
    ultimately show ?thesis
      by (auto simp: sharedCount_sym [of "text" b a])
  qed
  have s: "(\<exists>r \<in> set ?R. source r = x \<and> target r = y) \<Longrightarrow> (\<exists>r \<in> set ?R. source r = y \<and> target r = x)"
    for x y
    using m by metis
  have "(\<exists>r \<in> set ?R. source r = cid a \<and> target r = cid b)
          = (\<exists>r \<in> set ?R. source r = cid b \<and> target r = cid a)" for a b :: concept
    using s [of "cid a" "cid b"] s [of "cid b" "cid a"] by blast
  moreover have "length ?R = 2 * length (filter (\<lambda>p. linked text (fst p) (snd p)) (pairsOf cs))"
    by (rule length_identify_pairs)
  ultimately show ?thesis using m by blast
qed

subsection \<open>Endpoints\<close>

lemma enrich_fields [simp]:
  "cid (enrichConcept c) = cid c"
  "name (enrichConcept c) = name c"
  "level (enrichConcept c) = level c"
  "importance (enrichConcept c) = importance c"
  "frequency (enrichConcept c) = frequency c"
  "isCritical (enrichConcept c) = isCritical c"
  "originalForm (enrichConcept c) = originalForm c"
  "formatting (enrichConcept c) = formatting c"
  by (simp_all add: enrichConcept_def Let_def)

lemma format_fields [simp]:
  "cid (formatConcept c) = cid c"
  "name (formatConcept c) = name c"
  "level (formatConcept c) = level c"
  "importance (formatConcept c) = importance c"
  "frequency (formatConcept c) = frequency c"
  "isCritical (formatConcept c) = isCritical c"
  "originalForm (formatConcept c) = originalForm c"
  "definition_of (formatConcept c) = definition_of c"
  "examples (formatConcept c) = examples c"
  "relatedTerms (formatConcept c) = relatedTerms c"
  by (simp_all add: formatConcept_def Let_def)

lemma style_fields [simp]:
  "source (styleRelationship cs r) = source r"
  "target (styleRelationship cs r) = target r"
  "rtype (styleRelationship cs r) = rtype r"
  "rid (styleRelationship cs r) = rid r"
  "strength (styleRelationship cs r) = strength r"
  by (simp_all add: styleRelationship_def Let_def)

lemma endpoints_identify:
  assumes "r \<in> set (identifyConceptRelationships text cs)"
  shows "source r \<in> cid ` set cs \<and> target r \<in> cid ` set cs"
proof -
  from assms obtain a b where "a \<in> set cs" "b \<in> set cs" "linked text a b" "relOf text a b = [r]"
    by (auto simp: in_identify)
  then show ?thesis by (auto simp: relOf_eq)
qed

lemma endpoints_analyze_set:
  assumes "r \<in> set (analyzeRelationships random3 text cs)"
  shows "source r \<in> cid ` set cs \<and> target r \<in> cid ` set cs"
proof -
  from assms have "(source r, target r)
      \<in> set (map (\<lambda>r. (source r, target r)) (analyzeRelationships random3 text cs))"
    by (simp add: image_iff) blast
  then have "(source r, target r)
      \<in> set (map (\<lambda>r. (source r, target r)) (identifyConceptRelationships text cs))"
    by (simp only: endpoints_analyze)
  then obtain r' where "r' \<in> set (identifyConceptRelationships text cs)"
    "source r' = source r" "target r' = target r"
    by auto
  with endpoints_identify [of r' "text" cs] show ?thesis by simp
qed

lemma endpoints_validate:
  "r \<in> set (validateRelationshipCoherence rs cs)
     \<Longrightarrow> source r \<in> cid ` set cs \<and> target r \<in> cid ` set cs"
  by (auto simp: validateRelationshipCoherence_def Let_def)

lemma known_step2: "endpointsKnown (step2_AnalyzeRelationships random3 text r)"
  by (auto simp: endpointsKnown_def step2_AnalyzeRelationships_def dest: endpoints_analyze_set)

lemma known_step3:
  "endpointsKnown r \<Longrightarrow> endpointsKnown (r \<lparr> concepts := step3_EnrichSemantically (concepts r) \<rparr>)"
  by (simp add: endpointsKnown_def step3_EnrichSemantically_def image_image)

lemma known_step4: "endpointsKnown (step4_VerifyAndValidate r)"
  unfolding endpointsKnown_def relationships_step4
  by (blast dest: endpoints_validate)

lemma known_present: "endpointsKnown r \<Longrightarrow> endpointsKnown (presentResult r)"
  by (simp add: endpointsKnown_def presentResult_def Let_def image_image)

lemma known_limit: "endpointsKnown r \<Longrightarrow> endpointsKnown (limitConcepts m r)"
  by (auto simp: endpointsKnown_def limitConcepts_def Let_def)

lemma known_finish: "endpointsKnown r \<Longrightarrow> endpointsKnown (finish r)"
  by (simp add: endpointsKnown_def finish_def Let_def)

lemma known_no_relationships: "relationships r = [] \<Longrightarrow> endpointsKnown r"
  by (simp add: endpointsKnown_def)

lemma known_validated:
  assumes "relationships r1 = []"
  shows "endpointsKnown (validated random3 text cfg r1)"
proof -
  let ?r2 = "if reasoning (stages cfg) then step2_AnalyzeRelationships random3 text r1 else r1"
  let ?r3 = "if enrichment (stages cfg)
             then ?r2 \<lparr> concepts := step3_EnrichSemantically (concepts ?r2) \<rparr> else ?r2"
  from assms have "endpointsKnown r1" by (rule known_no_relationships)
  then have "endpointsKnown ?r2" by (simp add: known_step2)
  then have "endpointsKnown ?r3" by (simp add: known_step3)
  then have "endpointsKnown (if validation (stages cfg) then step4_VerifyAndValidate ?r3 else ?r3)"
    by (simp add: known_step4)
  then show ?thesis by (simp add: validated_def Let_def)
qed

lemma first_stage_cases:
  assumes "runStages random3 text cfg = Some (Inr s)"
  obtains r1 where "relationships r1 = []"
    and "s = validated random3 text cfg r1 \<or> s = presentResult (validated random3 text cfg r1)"
proof -
  from assms obtain r1 where
    r1: "(if organization (stages cfg)
          then step1_OrganizeAndHierarchize text (initialResult text)
          else Some (initialResult text)) = Some r1"
    and s: "(if aesthetics (stages cfg)
             then step5_OptimizeVisualPresentation (style cfg) (validated random3 text cfg r1)
             else Inr (validated random3 text cfg r1)) = Inr s"
    by (auto simp: runStages_def split: option.splits)
  from r1 have "relationships r1 = []"
    by (auto simp: step1_OrganizeAndHierarchize_def initialResult_def
        split: if_splits option.splits)
  moreover from s have
    "s = validated random3 text cfg r1 \<or> s = presentResult (validated random3 text cfg r1)"
    by (auto simp: step5_OptimizeVisualPresentation_def split: if_splits)
  ultimately show ?thesis by (rule that)
qed

lemma known_runStages:
  assumes "runStages random3 text cfg = Some (Inr s)"
  shows "endpointsKnown s"
proof -
  from assms obtain r1 where "relationships r1 = []"
    and "s = validated random3 text cfg r1 \<or> s = presentResult (validated random3 text cfg r1)"
    by (rule first_stage_cases)
  then show ?thesis
    using known_validated [of r1 random3 "text" cfg] by (auto intro: known_present)
qed

lemma processText_returns:
  "processText random3 text cfg = Some (Inr r) \<longleftrightarrow>
     (\<exists>s. runStages random3 text cfg = Some (Inr s)
          \<and> r = finish (limitConcepts (maxConcepts cfg) s))"
  by (auto simp: processText_def split: option.splits sum.splits)

lemma extract_defined:
  "js ''constructor'' \<notin> set (map cleanWord (splitRuns isSpace text))
     \<Longrightarrow> \<exists>cs. extractMainConcepts text = Some cs"
  by (simp add: extractMainConcepts_def wordFrequency_def Let_def)

lemma processText_defined:
  assumes "js ''constructor'' \<notin> set (map cleanWord (splitRuns isSpace text))"
    and "style cfg \<notin> set inheritedNames"
  shows "\<exists>r. processText random3 text cfg = Some (Inr r)"
proof -
  from extract_defined [OF assms(1)] obtain cs where "extractMainConcepts text = Some cs" ..
  then have "\<exists>r1. (if organization (stages cfg)
          then step1_OrganizeAndHierarchize text (initialResult text)
          else Some (initialResult text)) = Some r1"
    by (simp add: step1_OrganizeAndHierarchize_def)
  then obtain r1 where "(if organization (stages cfg)
          then step1_OrganizeAndHierarchize text (initialResult text)
          else Some (initialResult text)) = Some r1" ..
  with assms(2) have "\<exists>s. runStages random3 text cfg = Some (Inr s)"
    by (simp add: runStages_def step5_OptimizeVisualPresentation_def)
  then show ?thesis by (auto simp: processText_returns)
qed


subsection \<open>Texts without eligible tokens\<close>

lemma splitAux_blank:
  "\<forall>c \<in> set s. P c \<Longrightarrow> set (splitAux P b s) \<subseteq> {[]}"
  by (induction s arbitrary: b) auto

lemma cleanWord_Nil: "cleanWord [] = []"
  by (simp add: cleanWord_def toLowerCase_def)

lemma fold_countWord_none:
  "\<forall>w \<in> set ws. length (cleanWord w) \<le> 3 \<Longrightarrow> fold countWord ws acc = acc"
  by (induction ws arbitrary: acc) (auto simp: countWord_def Let_def)

lemma wordFrequency_none:
  assumes "\<forall>w \<in> set ws. length (cleanWord w) \<le> 3"
  shows "wordFrequency ws = Some []"
proof -
  have "js ''constructor'' \<notin> set (map cleanWord ws)"
  proof
    assume "js ''constructor'' \<in> set (map cleanWord ws)"
    then obtain w where "w \<in> set ws" "cleanWord w = js ''constructor''" by auto
    with assms have "length (js ''constructor'') \<le> 3" by metis
    then show False by simp
  qed
  with assms show ?thesis
    by (simp add: wordFrequency_def fold_countWord_none)
qed

lemma sortedWords_Nil: "sortedWords [] = []"
  by (simp add: sortedWords_def objectKeys_def)

lemma eligibleTokens_blank:
  assumes "\<forall>c \<in> set text. isSpace c"
  shows "eligibleTokens text = Some []"
proof -
  have "set (splitRuns isSpace text) \<subseteq> {[]}"
    unfolding splitRuns_def using assms by (rule splitAux_blank)
  then have "\<forall>w \<in> set (splitRuns isSpace text). length (cleanWord w) \<le> 3"
    by (auto simp: cleanWord_Nil)
  then have "wordFrequency (splitRuns isSpace text) = Some []"
    by (rule wordFrequency_none)
  then show ?thesis
    by (simp add: eligibleTokens_def sortedWords_Nil)
qed

lemma extractMainConcepts_eligible:
  assumes "eligibleTokens text = Some ws"
  shows "\<exists>cs. extractMainConcepts text = Some cs \<and> length cs = min 15 (length ws)"
  using assms
  by (auto simp: eligibleTokens_def extractMainConcepts_def Let_def enumerate_eq_zip
      min.commute split: option.splits)

lemma extract_none: "eligibleTokens text = Some [] \<Longrightarrow> extractMainConcepts text = Some []"
  using extractMainConcepts_eligible [of "text" "[]"] by auto

lemma sortConcepts_Nil: "sortConceptsByRelevance [] = []"
  by (simp add: sortConceptsByRelevance_def levelKeys_def)

lemma analyze_Nil: "analyzeRelationships random3 text [] = []"
  by (simp add: analyzeRelationships_def assignRelationshipStrength_def
      classifyRelationshipTypes_def identifyConceptRelationships_def enumerate_eq_zip)

lemma step4_Nil:
  "concepts r = [] \<Longrightarrow> concepts (step4_VerifyAndValidate r) = []
     \<and> relationships (step4_VerifyAndValidate r) = []"
  by (simp add: step4_VerifyAndValidate_def Let_def filterIrrelevantConcepts_def
      removeRedundantConcepts_def validateRelationshipCoherence_def)

lemma validated_Nil:
  assumes "concepts r1 = []" and "relationships r1 = []"
  shows "concepts (validated random3 text cfg r1) = []
     \<and> relationships (validated random3 text cfg r1) = []"
proof -
  let ?r2 = "if reasoning (stages cfg) then step2_AnalyzeRelationships random3 text r1 else r1"
  let ?r3 = "if enrichment (stages cfg)
             then ?r2 \<lparr> concepts := step3_EnrichSemantically (concepts ?r2) \<rparr> else ?r2"
  let ?r4 = "if validation (stages cfg) then step4_VerifyAndValidate ?r3 else ?r3"
  from assms have 2: "concepts ?r2 = [] \<and> relationships ?r2 = []"
    by (simp add: step2_AnalyzeRelationships_def analyze_Nil)
  then have 3: "concepts ?r3 = [] \<and> relationships ?r3 = []"
    by (simp add: step3_EnrichSemantically_def)
  then have "concepts ?r4 = [] \<and> relationships ?r4 = []"
    using step4_Nil [of ?r3] by simp
  then show ?thesis by (simp add: validated_def Let_def)
qed

lemma runStages_no_concepts:
  assumes "eligibleTokens text = Some []"
  shows "\<exists>s. runStages random3 text cfg = Some (Inr s) \<and> concepts s = [] \<and> relationships s = []"
proof -
  define r1 where "r1 = (initialResult text) \<lparr> concepts := [] \<rparr>"
  have r1: "(if organization (stages cfg)
          then step1_OrganizeAndHierarchize text (initialResult text)
          else Some (initialResult text)) = Some r1"
    using extract_none [OF assms]
    by (simp add: r1_def step1_OrganizeAndHierarchize_def sortConcepts_Nil initialResult_def)
  have e: "concepts r1 = []" "relationships r1 = []"
    by (simp_all add: r1_def initialResult_def)
  let ?v = "validated random3 text cfg r1"
  from validated_Nil [OF e] have v: "concepts ?v = []" "relationships ?v = []"
    by simp_all
  then have "step5_OptimizeVisualPresentation (style cfg) ?v = Inr (presentResult ?v)"
    by (simp add: step5_OptimizeVisualPresentation_def)
  moreover from v have "concepts (presentResult ?v) = []" "relationships (presentResult ?v) = []"
    by (simp_all add: presentResult_def Let_def)
  ultimately show ?thesis
    using r1 v by (simp add: runStages_def)
qed

lemma limit_no_concepts:
  "concepts r = [] \<Longrightarrow> relationships r = []
     \<Longrightarrow> concepts (limitConcepts m r) = [] \<and> relationships (limitConcepts m r) = []"
  by (simp add: limitConcepts_def Let_def sliceTo_def)

lemma finish_fields:
  "concepts (finish r) = concepts r"
  "relationships (finish r) = relationships r"
  "content (finish r) = generateEducationalConceptMap r"
  "conceptsRemoved (metadata (finish r)) = conceptsRemoved (metadata r)"
  "relationshipsRemoved (metadata (finish r)) = relationshipsRemoved (metadata r)"
  "limitationApplied (metadata (finish r)) = limitationApplied (metadata r)"
  by (simp_all add: finish_def Let_def)

lemma render_no_concepts:
  "concepts r = [] \<Longrightarrow> generateEducationalConceptMap r = js ''# Mapa Conceptual'' @ [nl, nl]"
  by (simp add: generateEducationalConceptMap_def)

lemma processText_no_concepts:
  assumes "eligibleTokens text = Some []"
  shows "\<exists>r. processText random3 text cfg = Some (Inr r) \<and> concepts r = []
     \<and> relationships r = [] \<and> content r = js ''# Mapa Conceptual'' @ [nl, nl]"
proof -
  from runStages_no_concepts [OF assms] obtain s where
    s: "runStages random3 text cfg = Some (Inr s)" "concepts s = []" "relationships s = []"
    by blast
  let ?r = "limitConcepts (maxConcepts cfg) s"
  from s have "concepts ?r = [] \<and> relationships ?r = []"
    by (simp add: limit_no_concepts)
  then have "concepts (finish ?r) = [] \<and> relationships (finish ?r) = []
      \<and> content (finish ?r) = js ''# Mapa Conceptual'' @ [nl, nl]"
    by (simp add: finish_fields render_no_concepts)
  with s(1) show ?thesis by (simp add: processText_def)
qed

text \<open>
  Claim C1, as the code has it. For a text that is empty or consists of whitespace only,
  \<^const>\<open>processText\<close> raises nothing: it returns a result without concepts and without
  relationships whose content is the bare title.
\<close>

theorem processText_blank_text:
  assumes "\<forall>c \<in> set text. isSpace c"
  shows "\<exists>r. processText random3 text cfg = Some (Inr r) \<and> concepts r = []
     \<and> relationships r = [] \<and> content r = js ''# Mapa Conceptual'' @ [nl, nl]"
  using assms by (intro processText_no_concepts eligibleTokens_blank)

text \<open>Two blanks, under the default configuration.\<close>

theorem processText_blank_text_witness:
  "\<exists>r. processText firstType (js ''  '') defaultConfig = Some (Inr r) \<and> concepts r = []
     \<and> relationships r = [] \<and> content r = js ''# Mapa Conceptual'' @ [nl, nl]"
  by (rule processText_blank_text) (simp add: isSpace_def)

text \<open>
  Against claim C1 as stated: on the empty string the call does not fail with
  \<^const>\<open>InvalidInputError\<close>; it returns a result, whose content is the bare title.
\<close>

theorem processText_blank_text_counterexample:
  "map_option (map_sum id content) (processText firstType [] defaultConfig)
     = Some (Inr (js ''# Mapa Conceptual'' @ [nl, nl]))
   \<and> map_option (map_sum id concepts) (processText firstType [] defaultConfig) = Some (Inr [])
   \<and> processText firstType [] defaultConfig \<noteq> Some (Inl InvalidInputError)"
proof -
  have "eligibleTokens [] = Some []"
    by (rule eligibleTokens_blank) simp
  from processText_no_concepts [OF this, of firstType defaultConfig]
  show ?thesis by auto
qed


subsection \<open>A text of two words\<close>

lemmas lower_defs = toLowerCase_def lowerUnit_def
lemmas clean_defs = cleanWord_def toLowerCase_def lowerUnit_def keepChar_def isWordChar_def

lemma words_sample: "splitRuns isSpace sampleText = [js ''mapas'', js ''ideas'']"
  by (simp add: sampleText_def splitRuns_def isSpace_def)

lemma clean_sample:
  "cleanWord (js ''mapas'') = js ''mapas''"
  "cleanWord (js ''ideas'') = js ''ideas''"
  by (simp_all add: clean_defs)

lemma freq_sample:
  "wordFrequency [js ''mapas'', js ''ideas''] = Some [(js ''mapas'', 1), (js ''ideas'', 1)]"
  by (simp add: wordFrequency_def countWord_def clean_sample [simplified] Let_def)

lemma keys_sample:
  "objectKeys [(js ''mapas'', 1::nat), (js ''ideas'', 1)] = [js ''mapas'', js ''ideas'']"
  by (simp add: objectKeys_def isArrayIndex_def)

lemma sorted_sample:
  "sortedWords [(js ''mapas'', 1), (js ''ideas'', 1)] = [js ''mapas'', js ''ideas'']"
  by (simp add: sortedWords_def keys_sample [simplified] commonWords_def freqOf_def)

lemma eligible_sample: "eligibleTokens sampleText = Some [js ''mapas'', js ''ideas'']"
  by (simp add: eligibleTokens_def words_sample freq_sample [simplified]
      sorted_sample [simplified])

lemma orig_sample:
  "findOriginalForm (js ''mapas'') sampleText = js ''mapas''"
  "findOriginalForm (js ''ideas'') sampleText = js ''ideas''"
  by (simp_all add: sampleText_def findOriginalForm_def matchHere_def canon_def isWordChar_def Let_def)

lemma lower_sample:
  "toLowerCase sampleText = js ''mapas ideas''"
  "toLowerCase (js ''mapas'') = js ''mapas''"
  "toLowerCase (js ''ideas'') = js ''ideas''"
  by (simp_all add: sampleText_def lower_defs)

lemma index_sample:
  "indexOf (js ''mapas ideas'') (js ''mapas'') = 0"
  "indexOf (js ''mapas ideas'') (js ''ideas'') = 6"
  by (simp_all add: indexOf_def startsWith_def)

lemma extract_sample:
  "extractMainConcepts sampleText
     = Some [extracted (js ''concept-0'') (js ''mapas'') 0,
             extracted (js ''concept-1'') (js ''ideas'') 6]"
  by (simp add: extractMainConcepts_def words_sample freq_sample [simplified]
      sorted_sample [simplified]
      enumerate_eq_zip mkConcept_def Let_def orig_sample [simplified] lower_sample [simplified]
      index_sample [simplified] freqOf_def extracted_def)

lemma sort_sample:
  "sortConceptsByRelevance
     [extracted (js ''concept-0'') (js ''mapas'') 0, extracted (js ''concept-1'') (js ''ideas'') 6]
   = [extracted (js ''concept-0'') (js ''mapas'') 0, extracted (js ''concept-1'') (js ''ideas'') 6]"
  by (simp add: sortConceptsByRelevance_def levelKeys_def extracted_def Let_def)

lemma sentences_sample: "sentencesOf sampleText = [js ''mapas ideas'']"
  by (simp add: sampleText_def sentencesOf_def splitRuns_def isSentenceEnd_def nonBlank_def
      isSpace_def)

lemma includes_sample:
  "includesStr (js ''mapas ideas'') (js ''mapas'')"
  "includesStr (js ''mapas ideas'') (js ''ideas'')"
  by (simp_all add: startsWith_def)

lemma mentions_sample:
  "mentions e0 (js ''mapas ideas'')"
  "mentions e1 (js ''mapas ideas'')"
  by (simp_all add: mentions_def extracted_def lower_sample [unfolded sampleText_def, simplified]
      includes_sample [simplified])

lemma identify_sample:
  "identifyConceptRelationships sampleText [e0, e1]
     = [\<lparr> rid = js ''rel-concept-0-concept-1'', source = js ''concept-0'', target = js ''concept-1'',
           rtype = js ''relacionado con'', strength = 2, sharedSentences = 1,
           semanticCategory = None, visualWeight = None \<rparr>,
        \<lparr> rid = js ''rel-concept-1-concept-0'', source = js ''concept-1'', target = js ''concept-0'',
           rtype = js ''relacionado con'', strength = 2, sharedSentences = 1,
           semanticCategory = None, visualWeight = None \<rparr>]"
  using mentions_sample
  by (simp add: identifyConceptRelationships_def sentences_sample relationBetween_def Let_def)
     (simp add: extracted_def)

lemma analyze_sample:
  "analyzeRelationships firstType sampleText [e0, e1]
     = [weighted (js ''concept-0'') (js ''concept-1'') 2,
        weighted (js ''concept-1'') (js ''concept-0'') 2]"
  by (simp add: analyzeRelationships_def identify_sample [simplified] classifyRelationshipTypes_def
      enumerate_eq_zip classifyOne_def typeIndexOf_def relationTypes_def firstType_def
      assignRelationshipStrength_def assignOne_def typeWeights_def weighted_def Let_def)

lemma filter_sample:
  "filterIrrelevantConcepts [enrichConcept e0, enrichConcept e1] = [enrichConcept e0, enrichConcept e1]"
  by (simp add: filterIrrelevantConcepts_def extracted_def)

lemma redundant_sample:
  "removeRedundantConcepts [enrichConcept e0, enrichConcept e1] = [enrichConcept e0, enrichConcept e1]"
  by (simp add: removeRedundantConcepts_def redundantStep_def Let_def extracted_def
      lower_sample(2,3) [simplified] startsWith_def)

lemma validate_sample:
  "validateRelationshipCoherence
     [weighted (js ''concept-0'') (js ''concept-1'') 2, weighted (js ''concept-1'') (js ''concept-0'') 2]
     [enrichConcept e0, enrichConcept e1]
   = [weighted (js ''concept-0'') (js ''concept-1'') 2, weighted (js ''concept-1'') (js ''concept-0'') 2]"
  by (simp add: validateRelationshipCoherence_def Let_def weighted_def extracted_def)

lemma style_sample:
  "map (styleRelationship [formatConcept (enrichConcept e0), formatConcept (enrichConcept e1)])
     [weighted (js ''concept-0'') (js ''concept-1'') 2, weighted (js ''concept-1'') (js ''concept-0'') 2]
   = [weighted (js ''concept-0'') (js ''concept-1'') 3, weighted (js ''concept-1'') (js ''concept-0'') 3]"
  by (simp add: styleRelationship_def importanceOr1_def weighted_def extracted_def Let_def)

text \<open>The stages on the sample, for a configuration with the default flags and style.\<close>

lemma validated_all:
  assumes "stages cfg = stages defaultConfig"
  shows "validated random3 text cfg r1
     = step4_VerifyAndValidate
         ((step2_AnalyzeRelationships random3 text r1)
            \<lparr> concepts := step3_EnrichSemantically
                 (concepts (step2_AnalyzeRelationships random3 text r1)) \<rparr>)"
  using assms by (simp add: validated_def defaultConfig_def Let_def)

lemma step1_sample:
  "step1_OrganizeAndHierarchize sampleText (initialResult sampleText)
     = Some ((initialResult sampleText) \<lparr> concepts := [e0, e1] \<rparr>)"
  by (simp add: step1_OrganizeAndHierarchize_def extract_sample [simplified]
      sort_sample [simplified])

lemma validated_sample:
  assumes st: "stages cfg = stages defaultConfig"
  defines "v \<equiv> validated firstType sampleText cfg ((initialResult sampleText) \<lparr> concepts := [e0, e1] \<rparr>)"
  shows "concepts v = [enrichConcept e0, enrichConcept e1]"
    and "relationships v = [weighted (js ''concept-0'') (js ''concept-1'') 2,
                            weighted (js ''concept-1'') (js ''concept-0'') 2]"
    and "conceptsRemoved (metadata v) = Some 0"
    and "relationshipsRemoved (metadata v) = Some 0"
    and "limitationApplied (metadata v) = None"
proof -
  let ?r3 = "(step2_AnalyzeRelationships firstType sampleText
               ((initialResult sampleText) \<lparr> concepts := [e0, e1] \<rparr>))
             \<lparr> concepts := [enrichConcept e0, enrichConcept e1] \<rparr>"
  have v: "v = step4_VerifyAndValidate ?r3"
    unfolding v_def validated_all [OF st]
    by (simp add: step2_AnalyzeRelationships_def step3_EnrichSemantically_def)
  have c3: "concepts ?r3 = [enrichConcept e0, enrichConcept e1]"
    by simp
  have r3: "relationships ?r3 = [weighted (js ''concept-0'') (js ''concept-1'') 2,
                                 weighted (js ''concept-1'') (js ''concept-0'') 2]"
    by (simp add: step2_AnalyzeRelationships_def analyze_sample [simplified])
  show c: "concepts v = [enrichConcept e0, enrichConcept e1]"
    unfolding v concepts_step4 c3
    by (simp only: filter_sample redundant_sample)
  show r: "relationships v = [weighted (js ''concept-0'') (js ''concept-1'') 2,
                              weighted (js ''concept-1'') (js ''concept-0'') 2]"
    unfolding relationships_step4 [of ?r3, folded v] c r3
    by (rule validate_sample)
  have m: "metadata v = (metadata ?r3)
      \<lparr> conceptsRemoved := Some (int (length (concepts ?r3)) - int (length (concepts v))),
        relationshipsRemoved := Some (int (length (relationships ?r3)) - int (length (relationships v))) \<rparr>"
    unfolding v by (simp add: step4_VerifyAndValidate_def Let_def)
  show "conceptsRemoved (metadata v) = Some 0"
    unfolding m c c3 by simp
  show "relationshipsRemoved (metadata v) = Some 0"
    unfolding m r r3 by simp
  show "limitationApplied (metadata v) = None"
    unfolding m by (simp add: step2_AnalyzeRelationships_def initialResult_def)
qed

lemma present_fields:
  "concepts (presentResult r) = map formatConcept (concepts r)"
  "relationships (presentResult r)
     = map (styleRelationship (map formatConcept (concepts r))) (relationships r)"
  "conceptEmojis (presentResult r) = Some (assignRelevantEmojis (concepts r))"
  "metadata (presentResult r) = metadata r"
  by (simp_all add: presentResult_def Let_def)

lemma run_sample:
  assumes "stages cfg = stages defaultConfig" and "style cfg = js ''educational''"
  shows "\<exists>s. runStages firstType sampleText cfg = Some (Inr s)
     \<and> concepts s = [formatConcept (enrichConcept e0), formatConcept (enrichConcept e1)]
     \<and> relationships s = [weighted (js ''concept-0'') (js ''concept-1'') 3,
                           weighted (js ''concept-1'') (js ''concept-0'') 3]
     \<and> conceptEmojis s = Some (assignRelevantEmojis [enrichConcept e0, enrichConcept e1])
     \<and> conceptsRemoved (metadata s) = Some 0
     \<and> relationshipsRemoved (metadata s) = Some 0
     \<and> limitationApplied (metadata s) = None"
proof -
  let ?v = "validated firstType sampleText cfg ((initialResult sampleText) \<lparr> concepts := [e0, e1] \<rparr>)"
  note v = validated_sample [OF assms(1)]
  have "runStages firstType sampleText cfg
      = Some (step5_OptimizeVisualPresentation (style cfg) ?v)"
    using assms(1) by (simp add: runStages_def step1_sample [simplified] defaultConfig_def)
  also have "step5_OptimizeVisualPresentation (style cfg) ?v = Inr (presentResult ?v)"
    using assms(2) by (simp add: step5_OptimizeVisualPresentation_def inheritedNames_def)
  finally have run: "runStages firstType sampleText cfg = Some (Inr (presentResult ?v))" .
  have mf: "map formatConcept [enrichConcept e0, enrichConcept e1]
      = [formatConcept (enrichConcept e0), formatConcept (enrichConcept e1)]"
    by simp
  have c: "concepts (presentResult ?v)
      = [formatConcept (enrichConcept e0), formatConcept (enrichConcept e1)]"
    unfolding present_fields v(1) by (rule mf)
  have r: "relationships (presentResult ?v)
      = [weighted (js ''concept-0'') (js ''concept-1'') 3,
         weighted (js ''concept-1'') (js ''concept-0'') 3]"
    unfolding present_fields v(1,2) mf by (rule style_sample)
  have e: "conceptEmojis (presentResult ?v)
      = Some (assignRelevantEmojis [enrichConcept e0, enrichConcept e1])"
    unfolding present_fields v(1) by (rule refl)
  have m: "conceptsRemoved (metadata (presentResult ?v)) = Some 0"
    "relationshipsRemoved (metadata (presentResult ?v)) = Some 0"
    "limitationApplied (metadata (presentResult ?v)) = None"
    unfolding present_fields by (rule v(3) v(4) v(5))+
  show ?thesis
    by (intro exI [of _ "presentResult ?v"] conjI run c r e m)
qed

subsection \<open>The call on the sample text\<close>

lemma limit_not_needed: "int (length (concepts r)) \<le> m \<Longrightarrow> limitConcepts m r = r"
  by (simp add: limitConcepts_def)

lemma limit_keeps_counts:
  "conceptsRemoved (metadata (limitConcepts m r)) = conceptsRemoved (metadata r)"
  "relationshipsRemoved (metadata (limitConcepts m r)) = relationshipsRemoved (metadata r)"
  by (simp_all add: limitConcepts_def Let_def)

lemma limit_take:
  "0 \<le> m \<Longrightarrow> m < int (length (concepts r))
     \<Longrightarrow> concepts (limitConcepts m r) = take (nat m) (sort_key (\<lambda>c. - importance c) (concepts r))"
  by (simp add: limitConcepts_def Let_def sliceTo_take)

lemma fields_sample:
  "definition_of (enrichConcept e0) = Some (js ''Elemento fundamental que representa mapas'')"
  "definition_of (enrichConcept e1) = Some (js ''Elemento fundamental que representa ideas'')"
  "isBold (formatConcept (enrichConcept e0))"
  "isBold (formatConcept (enrichConcept e1))"
  "displayName (formatConcept (enrichConcept e0)) = js ''mapas''"
  "displayName (formatConcept (enrichConcept e1)) = js ''ideas''"
  by (simp_all add: enrichConcept_def generateConciseDefinition_def displayName_def extracted_def
      isBold_def formatConcept_def Let_def)

lemma ids_sample:
  "cid e0 = js ''concept-0''" "cid e1 = js ''concept-1''" "level e0 = 0" "level e1 = 0"
  by (simp_all add: extracted_def)

lemma emojis_sample:
  "assignRelevantEmojis [enrichConcept e0, enrichConcept e1] (js ''concept-0'') = Some [11088]"
  "assignRelevantEmojis [enrichConcept e0, enrichConcept e1] (js ''concept-1'') = Some [11088]"
  by (simp_all add: assignRelevantEmojis_def extracted_def)

lemma render_sample:
  assumes "concepts s = [formatConcept (enrichConcept e0), formatConcept (enrichConcept e1)]"
    and "conceptEmojis s = Some (assignRelevantEmojis [enrichConcept e0, enrichConcept e1])"
  shows "generateEducationalConceptMap s
     = js ''# Mapa Conceptual'' @ [nl, nl]
       @ js ''## '' @ [11088] @ js '' **mapas**'' @ [nl, nl]
       @ js ''Elemento fundamental que representa mapas'' @ [nl, nl]
       @ js ''## '' @ [11088] @ js '' **ideas**'' @ [nl, nl]
       @ js ''Elemento fundamental que representa ideas'' @ [nl, nl]"
  by (simp add: generateEducationalConceptMap_def assms [simplified]
      mainConceptBlock_def Let_def emojiOf_def
      ids_sample [simplified]
      emojis_sample [simplified] boldName_def fields_sample [simplified] definitionText_def)

lemma processText_sample:
  "\<exists>r. processText firstType sampleText defaultConfig = Some (Inr r)
     \<and> concepts r = [formatConcept (enrichConcept e0), formatConcept (enrichConcept e1)]
     \<and> relationships r = [weighted (js ''concept-0'') (js ''concept-1'') 3,
                           weighted (js ''concept-1'') (js ''concept-0'') 3]
     \<and> content r
        = js ''# Mapa Conceptual'' @ [nl, nl]
          @ js ''## '' @ [11088] @ js '' **mapas**'' @ [nl, nl]
          @ js ''Elemento fundamental que representa mapas'' @ [nl, nl]
          @ js ''## '' @ [11088] @ js '' **ideas**'' @ [nl, nl]
          @ js ''Elemento fundamental que representa ideas'' @ [nl, nl]"
proof -
  have "stages defaultConfig = stages defaultConfig" "style defaultConfig = js ''educational''"
    by (simp_all add: defaultConfig_def)
  from run_sample [OF this] obtain s where
    run: "runStages firstType sampleText defaultConfig = Some (Inr s)"
    and c: "concepts s = [formatConcept (enrichConcept e0), formatConcept (enrichConcept e1)]"
    and r: "relationships s = [weighted (js ''concept-0'') (js ''concept-1'') 3,
                               weighted (js ''concept-1'') (js ''concept-0'') 3]"
    and e: "conceptEmojis s = Some (assignRelevantEmojis [enrichConcept e0, enrichConcept e1])"
    by blast
  have "int (length (concepts s)) \<le> maxConcepts defaultConfig"
    unfolding c by (simp add: defaultConfig_def)
  then have l: "limitConcepts (maxConcepts defaultConfig) s = s"
    by (rule limit_not_needed)
  have p: "processText firstType sampleText defaultConfig = Some (Inr (finish s))"
    by (simp add: processText_def run l)
  show ?thesis
    by (intro exI [of _ "finish s"] conjI p)
       (simp_all only: finish_fields c r render_sample [OF c e])
qed

lemma returned_fields:
  "x = Some (Inr r) \<Longrightarrow> map_option (map_sum id f) x = Some (Inr (f r))"
  by simp




subsection \<open>The limitation within the call\<close>



lemma limit_negative_sample:
  assumes "concepts s = [formatConcept (enrichConcept e0), formatConcept (enrichConcept e1)]"
    and "relationships s = [weighted (js ''concept-0'') (js ''concept-1'') 3,
                            weighted (js ''concept-1'') (js ''concept-0'') 3]"
  shows "length (concepts (limitConcepts (- 1) s)) = 1"
    and "limitationApplied (metadata (limitConcepts (- 1) s))
       = Some \<lparr> lim_conceptsRemoved = 3, lim_relationshipsRemoved = 2 \<rparr>"
  by (simp_all add: limitConcepts_def Let_def sliceTo_def assms [simplified]
      weighted_def extracted_def)


subsection \<open>A text of two sentences\<close>

lemma sentences_two: "sentencesOf (js ''Mapas ideas. Redes'') = [js ''Mapas ideas'', js '' Redes'']"
  by (simp add: sentencesOf_def splitRuns_def isSentenceEnd_def nonBlank_def isSpace_def)

lemma mentions_two:
  "mentions (conceptOf (js ''concept-0'') (js ''mapas'') 0 6 1 True) (js ''Mapas ideas'')"
  "mentions (conceptOf (js ''concept-1'') (js ''ideas'') 0 6 1 True) (js ''Mapas ideas'')"
  "\<not> mentions (conceptOf (js ''concept-0'') (js ''mapas'') 0 6 1 True) (js '' Redes'')"
  "\<not> mentions (conceptOf (js ''concept-1'') (js ''ideas'') 0 6 1 True) (js '' Redes'')"
  by (simp_all add: mentions_def conceptOf_def toLowerCase_def lowerUnit_def startsWith_def)

lemma linked_two:
  "linked (js ''Mapas ideas. Redes'') (conceptOf (js ''concept-0'') (js ''mapas'') 0 6 1 True)
     (conceptOf (js ''concept-1'') (js ''ideas'') 0 6 1 True)"
  unfolding linked_def sentences_two using mentions_two by (simp add: conceptOf_def)

lemma linked_pairs_two:
  "length (filter (\<lambda>p. linked (js ''Mapas ideas. Redes'') (fst p) (snd p)) (pairsOf twoConcepts)) = 1"
  using linked_two by (simp add: twoConcepts_def)

lemma length_analyze:
  "length (analyzeRelationships random3 text cs) = length (identifyConceptRelationships text cs)"
  by (simp add: analyzeRelationships_def assignRelationshipStrength_def
      classifyRelationshipTypes_def enumerate_eq_zip)

text \<open>
  Claim C10 on a text whose first sentence mentions both concepts: the one linked pair
  gives two relationships.
\<close>

theorem relationships_are_mirrored_witness:
  "length (filter (\<lambda>p. linked (js ''Mapas ideas. Redes'') (fst p) (snd p)) (pairsOf twoConcepts)) = 1
   \<and> length (identifyConceptRelationships (js ''Mapas ideas. Redes'') twoConcepts) = 2"
  using relationships_are_mirrored [of "js ''Mapas ideas. Redes''" twoConcepts] linked_pairs_two
  by simp

text \<open>
  Claim C9 on that text with its two concepts, and on the sample text with the concepts
  that the extractor gives: two relationships each, without a loop or a repeated triple.
\<close>

theorem analyzeRelationships_no_loops_no_duplicates_witness:
  "wellFormedRelationships (analyzeRelationships firstType (js ''Mapas ideas. Redes'') twoConcepts)
   \<and> length (analyzeRelationships firstType (js ''Mapas ideas. Redes'') twoConcepts) = 2
   \<and> wellFormedRelationships (analyzeRelationships firstType sampleText [e0, e1])
   \<and> length (analyzeRelationships firstType sampleText [e0, e1]) = 2"
proof -
  have d: "distinct (map cid twoConcepts)"
    by (simp add: twoConcepts_def conceptOf_def)
  note C9 = analyzeRelationships_no_loops_no_duplicates
  from mp [OF conjunct1 [OF conjunct2 [OF conjunct2 [OF C9]]] d]
  have 1: "wellFormedRelationships
      (analyzeRelationships firstType (js ''Mapas ideas. Redes'') twoConcepts)"
    by (rule conjunct2)
  have "length (identifyConceptRelationships (js ''Mapas ideas. Redes'') twoConcepts) = 2"
    using length_identify_pairs [of "js ''Mapas ideas. Redes''" twoConcepts] linked_pairs_two
    by simp
  then have 2: "length (analyzeRelationships firstType (js ''Mapas ideas. Redes'') twoConcepts) = 2"
    by (simp only: length_analyze)
  from mp [OF conjunct2 [OF conjunct2 [OF conjunct2 [OF C9]]] extract_sample]
  have "wellFormedRelationships (analyzeRelationships firstType sampleText
      (sortConceptsByRelevance [e0, e1]))"
    by blast
  then have 3: "wellFormedRelationships (analyzeRelationships firstType sampleText [e0, e1])"
    by (simp only: sort_sample)
  have 4: "length (analyzeRelationships firstType sampleText [e0, e1]) = 2"
    unfolding analyze_sample by simp
  from 1 2 3 4 show ?thesis by (intro conjI)
qed

subsection \<open>The content\<close>

lemma set_linesOf: "l \<in> set (linesOf s) \<Longrightarrow> set l \<subseteq> set s"
proof (induction s arbitrary: l)
  case Nil
  then show ?case by simp
next
  case (Cons c cs)
  show ?case
  proof (cases "c = nl")
    case True
    with Cons show ?thesis by auto
  next
    case False
    have "linesOf cs \<noteq> []" by (cases cs) (auto split: list.splits)
    then obtain l' ls where ls: "linesOf cs = l' # ls"
      by (cases "linesOf cs") auto
    with False Cons.prems have "l = c # l' \<or> l \<in> set ls" by auto
    with ls Cons.IH [of l'] Cons.IH [of l] show ?thesis by auto
  qed
qed

lemma startsWith_set: "startsWith s p \<Longrightarrow> set p \<subseteq> set s"
  unfolding startsWith_def by (metis set_take_subset)

lemma includesStr_set: "includesStr s p \<Longrightarrow> set p \<subseteq> set s"
proof (induction s)
  case Nil
  then show ?case by (simp add: startsWith_def)
next
  case (Cons c cs)
  from Cons.prems have "startsWith (c # cs) p \<or> includesStr cs p" by simp
  then show ?case
  proof
    assume "startsWith (c # cs) p"
    then show ?thesis by (rule startsWith_set)
  next
    assume "includesStr cs p"
    with Cons.IH show ?thesis by auto
  qed
qed

lemma no_bar_no_edge:
  assumes "124 \<notin> set s"
  shows "edgeLineCount s = 0"
proof -
  have "\<not> isLabeledEdgeLine l" if "l \<in> set (linesOf s)" for l
  proof
    assume "isLabeledEdgeLine l"
    then have "124 \<in> set l"
      by (auto simp: isLabeledEdgeLine_def dest!: includesStr_set)
    with set_linesOf [OF that] assms show False by auto
  qed
  then show ?thesis by (simp add: edgeLineCount_def filter_empty_conv)
qed

lemma no_bracket_no_node:
  assumes "91 \<notin> set s"
  shows "nodeLineCount s = 0"
proof -
  have "\<not> isNodeLine l" if "l \<in> set (linesOf s)" for l
  proof
    assume "isNodeLine l"
    then have "91 \<in> set l"
      by (auto simp: isNodeLine_def dest!: includesStr_set)
    with set_linesOf [OF that] assms show False by auto
  qed
  then show ?thesis by (simp add: nodeLineCount_def filter_empty_conv)
qed


subsection \<open>The characters of the content\<close>

lemma plain_simps [simp]:
  "plain []"
  "plain (c # s) \<longleftrightarrow> c \<noteq> 124 \<and> c \<noteq> 91 \<and> plain s"
  "plain (a @ b) \<longleftrightarrow> plain a \<and> plain b"
  "plain (concat xs) \<longleftrightarrow> (\<forall>x \<in> set xs. plain x)"
  by (auto simp: plain_def)

lemma plain_chars: "plain s \<longleftrightarrow> (\<forall>c \<in> set s. c \<noteq> 124 \<and> c \<noteq> 91)"
  by (auto simp: plain_def)

lemma plain_cleanWord: "plain (cleanWord w)"
  by (auto simp: plain_chars cleanWord_def keepChar_def isWordChar_def)

lemma keys_bump: "fst ` set (bump k acc) = insert k (fst ` set acc)"
  by (induction k acc rule: bump.induct) (auto simp: image_iff split: if_splits)

lemma keys_countWord: "fst ` set (countWord w acc) \<subseteq> insert (cleanWord w) (fst ` set acc)"
  by (auto simp: countWord_def Let_def keys_bump)

lemma keys_fold_countWord:
  "fst ` set (fold countWord ws acc) \<subseteq> cleanWord ` set ws \<union> fst ` set acc"
proof (induction ws arbitrary: acc)
  case Nil
  then show ?case by simp
next
  case (Cons w ws)
  from Cons.IH [of "countWord w acc"] keys_countWord [of w acc]
  show ?case by auto
qed

lemma plain_sortedWords:
  assumes "wordFrequency ws = Some freqs" and "w \<in> set (sortedWords freqs)"
  shows "plain w"
proof -
  from assms(2) have "w \<in> fst ` set freqs"
    by (auto simp: sortedWords_def objectKeys_def)
  moreover from assms(1) have "freqs = fold countWord ws []"
    by (simp add: wordFrequency_def split: if_splits)
  ultimately have "w \<in> cleanWord ` set ws"
    using keys_fold_countWord [of ws "[]"] by auto
  then show ?thesis by (auto simp: plain_cleanWord)
qed

lemma canon_plain:
  assumes "canon a = canon b" and "b \<noteq> 124" and "b \<noteq> 91"
  shows "a \<noteq> 124 \<and> a \<noteq> 91"
  using assms by (auto simp: canon_def split: if_splits)

lemma map_canon_plain:
  "map canon m = map canon w \<Longrightarrow> plain w \<Longrightarrow> plain m"
proof (induction m arbitrary: w)
  case Nil
  then show ?case by simp
next
  case (Cons a m)
  then obtain b w' where w: "w = b # w'" by (cases w) auto
  with Cons.prems have "canon a = canon b" "map canon m = map canon w'" "b \<noteq> 124" "b \<noteq> 91"
    "plain w'"
    by simp_all
  with Cons.IH [of w'] canon_plain [of a b] show ?case by simp
qed

lemma plain_takeWhile_word: "plain (takeWhile isWordChar s)"
proof -
  have "\<forall>c \<in> set (takeWhile isWordChar s). isWordChar c"
    by (auto dest: set_takeWhileD)
  then show ?thesis by (auto simp: plain_chars isWordChar_def)
qed

lemma plain_matchHere:
  assumes "matchHere word b s = Some m" and "plain word"
  shows "plain m"
proof -
  from assms(1) have m: "m = take (length word) s @ takeWhile isWordChar (drop (length word) s)"
    and c: "map canon (take (length word) s) = map canon word"
    by (auto simp: matchHere_def Let_def split: if_splits)
  from map_canon_plain [OF c assms(2)] show ?thesis
    unfolding m by (simp add: plain_takeWhile_word)
qed

lemma plain_findFrom:
  "findFrom word b s = Some m \<Longrightarrow> plain word \<Longrightarrow> plain m"
  by (induction word b s rule: findFrom.induct) (auto split: option.splits dest: plain_matchHere)

lemma plain_findOriginalForm: "plain word \<Longrightarrow> plain (findOriginalForm word text)"
  by (auto simp: findOriginalForm_def split: option.splits dest: plain_findFrom)

lemma plain_mkConcept:
  assumes "plain (snd iw)"
  shows "plainConcept (mkConcept text freqs n iw)"
  using assms by (simp add: plainConcept_def mkConcept_def Let_def plain_findOriginalForm)

lemma plain_extractMainConcepts:
  assumes "extractMainConcepts text = Some cs"
  shows "list_all plainConcept cs"
proof -
  from assms obtain freqs where
    f: "wordFrequency (splitRuns isSpace text) = Some freqs"
    and cs: "cs = map (mkConcept text freqs (length (splitRuns isSpace text)))
               (enumerate 0 (take 15 (sortedWords freqs)))"
    by (auto simp: extractMainConcepts_def Let_def split: option.splits)
  have "plain (snd iw)" if "iw \<in> set (enumerate 0 (take 15 (sortedWords freqs)))" for iw
  proof -
    from that have "snd iw \<in> set (take 15 (sortedWords freqs))"
      by (metis map_snd_enumerate imageI set_map)
    then have "snd iw \<in> set (sortedWords freqs)"
      by (rule in_set_takeD)
    with f show ?thesis by (rule plain_sortedWords)
  qed
  then show ?thesis
    unfolding cs by (simp add: list_all_iff plain_mkConcept)
qed

lemma plain_sortConceptsByRelevance:
  "list_all plainConcept cs \<Longrightarrow> list_all plainConcept (sortConceptsByRelevance cs)"
proof -
  have "set (sortConceptsByRelevance cs) = set cs"
    by (rule mset_eq_setD) (rule mset_sortConceptsByRelevance)
  then show "list_all plainConcept cs \<Longrightarrow> list_all plainConcept (sortConceptsByRelevance cs)"
    by (simp add: list_all_iff)
qed

lemma plain_displayName: "plainConcept c \<Longrightarrow> plain (displayName c)"
  by (simp add: plainConcept_def displayName_def)

lemma plain_generateConciseDefinition:
  assumes "plainConcept c" and "generateConciseDefinition c = Some d"
  shows "plain d"
proof -
  let ?ds = "[js ''T'' @ [233] @ js ''rmino que hace referencia a '' @ name c
               @ js '' en el contexto del documento'',
             js ''Concepto clave relacionado con la tem'' @ [225] @ js ''tica principal'',
             js ''Elemento fundamental que representa '' @ displayName c,
             js ''Componente que define aspectos esenciales del tema tratado'']"
  let ?k = "int (level c) + \<lfloor>importance c\<rfloor>"
  from assms(2) have d: "d = ?ds ! nat (?k mod 4)"
    by (simp add: generateConciseDefinition_def Let_def split: if_splits)
  have "nat (?k mod 4) < length ?ds"
    by simp
  then have "d \<in> set ?ds"
    unfolding d by (rule nth_mem)
  moreover have "\<forall>x \<in> set ?ds. plain x"
    using assms(1) plain_displayName [OF assms(1)] by (simp add: plainConcept_def)
  ultimately show ?thesis by blast
qed

lemma plain_findRelevantExamples:
  assumes "plainConcept c"
  shows "list_all plain (findRelevantExamples c)"
proof -
  have "set (findRelevantExamples c)
      \<subseteq> {js ''Ejemplo aplicado de '' @ displayName c,
          js ''Caso pr'' @ [225] @ js ''ctico que ilustra este concepto'',
          js ''Instancia espec'' @ [237] @ js ''fica que demuestra su aplicaci'' @ [243] @ js ''n''}"
    unfolding findRelevantExamples_def Let_def
    by (rule order_trans [OF set_take_subset]) simp
  moreover have "plain (js ''Ejemplo aplicado de '' @ displayName c)"
    using plain_displayName [OF assms] by simp
  ultimately show ?thesis
    by (auto simp: list_all_iff)
qed

lemma plain_identifyRelatedTerms:
  "plainConcept c \<Longrightarrow> list_all plain (identifyRelatedTerms c)"
  by (simp add: identifyRelatedTerms_def plainConcept_def)

lemma plain_enrichConcept:
  assumes "plainConcept c"
  shows "plainConcept (enrichConcept c)"
proof -
  let ?c1 = "if definition_of c = None \<or> definition_of c = Some []
             then c \<lparr> definition_of := generateConciseDefinition c \<rparr> else c"
  let ?c2 = "if examples ?c1 = None then ?c1 \<lparr> examples := Some (findRelevantExamples ?c1) \<rparr>
             else ?c1"
  let ?c3 = "if relatedTerms ?c2 = None
             then ?c2 \<lparr> relatedTerms := Some (identifyRelatedTerms ?c2) \<rparr> else ?c2"
  have 1: "plainConcept ?c1"
    using assms plain_generateConciseDefinition [OF assms]
    by (auto simp: plainConcept_def split: option.splits)
  have 2: "plainConcept ?c2"
    using 1 plain_findRelevantExamples [OF 1]
    by (auto simp: plainConcept_def split: option.splits)
  have 3: "plainConcept ?c3"
    using 2 plain_identifyRelatedTerms [OF 2]
    by (auto simp: plainConcept_def split: option.splits)
  have "plainConcept (if classification ?c3 = None
      then ?c3 \<lparr> classification := Some (classifyConcept ?c3) \<rparr> else ?c3)"
    using 3 by (simp add: plainConcept_def)
  then show ?thesis by (simp add: enrichConcept_def Let_def)
qed

lemma plain_formatConcept: "plainConcept c \<Longrightarrow> plainConcept (formatConcept c)"
  by (simp add: plainConcept_def formatConcept_def Let_def)

lemma plain_identify:
  "list_all (\<lambda>rel. plain (rtype rel)) (identifyConceptRelationships text cs)"
  by (auto simp: list_all_iff identifyConceptRelationships_def relationBetween_def Let_def
      split: if_splits)

lemma plain_relationTypes:
  assumes "i < 9"
  shows "plain (fst (relationTypes ! i))"
proof -
  have "\<forall>p \<in> set relationTypes. plain (fst p)"
    by (simp add: relationTypes_def)
  moreover from assms have "relationTypes ! i \<in> set relationTypes"
    by (intro nth_mem) (simp add: relationTypes_def)
  ultimately show ?thesis by blast
qed

lemma typeIndexOf_bound: "typeIndexOf d rel < 9"
proof -
  have "d mod 3 < 3" by simp
  then show ?thesis unfolding typeIndexOf_def by (simp only: split: if_splits) arith
qed

lemma plain_analyzeRelationships:
  "list_all (\<lambda>rel. plain (rtype rel)) (analyzeRelationships random3 text cs)"
  by (simp add: list_all_iff analyzeRelationships_def assignRelationshipStrength_def
      classifyRelationshipTypes_def assignOne_def classifyOne_def Let_def
      plain_relationTypes typeIndexOf_bound)

lemma plain_validateRelationshipCoherence:
  "list_all (\<lambda>rel. plain (rtype rel)) rs
     \<Longrightarrow> list_all (\<lambda>rel. plain (rtype rel)) (validateRelationshipCoherence rs cs)"
  by (simp add: list_all_iff validateRelationshipCoherence_def Let_def)

lemma plain_levelEmoji: "plain (levelEmoji l)"
  by (simp add: levelEmoji_def)

lemma plain_fold_emojis:
  assumes "\<forall>v \<in> ran m. plain v"
  shows "\<forall>v \<in> ran (fold (\<lambda>c m. m(cid c \<mapsto> (if isCritical c then [11088] else levelEmoji (level c))))
                      cs m). plain v"
  using assms
proof (induction cs arbitrary: m)
  case Nil
  then show ?case by simp
next
  case (Cons c cs)
  let ?m = "m(cid c \<mapsto> (if isCritical c then [11088] else levelEmoji (level c)))"
  have "\<forall>v \<in> ran ?m. plain v"
  proof
    fix v assume "v \<in> ran ?m"
    then obtain k where "?m k = Some v" by (auto simp: ran_def)
    then have "v = (if isCritical c then [11088] else levelEmoji (level c)) \<or> m k = Some v"
      by (auto split: if_splits)
    with Cons.prems show "plain v"
      by (auto simp: plain_levelEmoji ran_def)
  qed
  from Cons.IH [OF this] show ?case by simp
qed

lemma plain_assignRelevantEmojis: "plainEmojis (Some (assignRelevantEmojis cs))"
  using plain_fold_emojis [of Map.empty cs] by (simp add: plainEmojis_def assignRelevantEmojis_def)

subsection \<open>The stages keep the strings plain\<close>

lemma plain_initialResult: "plainResult (initialResult text)"
  by (simp add: plainResult_def initialResult_def plainEmojis_def)

lemma plain_step1:
  assumes "step1_OrganizeAndHierarchize text (initialResult text) = Some r1"
  shows "plainResult r1"
proof -
  from assms obtain mainConcepts where e: "extractMainConcepts text = Some mainConcepts"
    and r1: "r1 = (initialResult text) \<lparr> concepts := sortConceptsByRelevance mainConcepts \<rparr>"
    by (auto simp: step1_OrganizeAndHierarchize_def split: option.splits)
  from plain_sortConceptsByRelevance [OF plain_extractMainConcepts [OF e]] plain_initialResult
  show ?thesis
    unfolding r1 by (simp add: plainResult_def)
qed

lemma plain_step2: "plainResult r \<Longrightarrow> plainResult (step2_AnalyzeRelationships random3 text r)"
  by (simp add: plainResult_def step2_AnalyzeRelationships_def plain_analyzeRelationships)

lemma plain_step3:
  "plainResult r \<Longrightarrow> plainResult (r \<lparr> concepts := step3_EnrichSemantically (concepts r) \<rparr>)"
  by (simp add: plainResult_def step3_EnrichSemantically_def list_all_iff plain_enrichConcept)

lemma plain_step4:
  assumes "plainResult r"
  shows "plainResult (step4_VerifyAndValidate r)"
proof -
  have "set (concepts (step4_VerifyAndValidate r)) \<subseteq> set (concepts r)"
    unfolding concepts_step4
    using set_removeRedundantConcepts [of "filterIrrelevantConcepts (concepts r)"]
    by (auto simp: filterIrrelevantConcepts_def)
  with assms have "list_all plainConcept (concepts (step4_VerifyAndValidate r))"
    by (auto simp: plainResult_def list_all_iff)
  moreover from assms
  have "list_all (\<lambda>rel. plain (rtype rel)) (relationships (step4_VerifyAndValidate r))"
    unfolding relationships_step4
    by (intro plain_validateRelationshipCoherence) (simp add: plainResult_def)
  moreover have "conceptEmojis (step4_VerifyAndValidate r) = conceptEmojis r"
    by (simp add: step4_VerifyAndValidate_def Let_def)
  ultimately show ?thesis
    using assms by (simp add: plainResult_def)
qed

lemma plain_validated:
  assumes "plainResult r1"
  shows "plainResult (validated random3 text cfg r1)"
proof -
  let ?r2 = "if reasoning (stages cfg) then step2_AnalyzeRelationships random3 text r1 else r1"
  let ?r3 = "if enrichment (stages cfg)
             then ?r2 \<lparr> concepts := step3_EnrichSemantically (concepts ?r2) \<rparr> else ?r2"
  from assms have "plainResult ?r2" by (simp add: plain_step2)
  then have "plainResult ?r3" by (simp add: plain_step3)
  then have "plainResult (if validation (stages cfg) then step4_VerifyAndValidate ?r3 else ?r3)"
    by (simp add: plain_step4)
  then show ?thesis by (simp add: validated_def Let_def)
qed

lemma plain_presentResult:
  assumes "plainResult r"
  shows "plainResult (presentResult r)"
  using assms plain_assignRelevantEmojis [of "concepts r"]
  by (simp add: plainResult_def present_fields list_all_iff plain_formatConcept
      styleRelationship_def Let_def)

lemma plain_runStages:
  assumes "runStages random3 text cfg = Some (Inr s)"
  shows "plainResult s"
proof -
  from assms obtain r1 where
    r1: "(if organization (stages cfg)
          then step1_OrganizeAndHierarchize text (initialResult text)
          else Some (initialResult text)) = Some r1"
    and s: "(if aesthetics (stages cfg)
             then step5_OptimizeVisualPresentation (style cfg) (validated random3 text cfg r1)
             else Inr (validated random3 text cfg r1)) = Inr s"
    by (auto simp: runStages_def split: option.splits)
  from r1 have "plainResult r1"
    by (auto simp: plain_initialResult split: if_splits dest: plain_step1)
  then have "plainResult (validated random3 text cfg r1)"
    by (rule plain_validated)
  with s show ?thesis
    by (auto simp: step5_OptimizeVisualPresentation_def split: if_splits
        intro: plain_presentResult)
qed

lemma plain_limitConcepts:
  assumes "plainResult r"
  shows "plainResult (limitConcepts m r)"
proof -
  have "set (sliceTo m xs) \<subseteq> set xs" for xs :: "concept list"
    by (auto simp: sliceTo_def dest: in_set_takeD)
  from this [of "sort_key (\<lambda>c. - importance c) (concepts r)"]
  have "set (concepts (limitConcepts m r)) \<subseteq> set (concepts r)"
    by (auto simp: limitConcepts_def Let_def)
  moreover have "set (relationships (limitConcepts m r)) \<subseteq> set (relationships r)"
    by (auto simp: limitConcepts_def Let_def)
  moreover have "conceptEmojis (limitConcepts m r) = conceptEmojis r"
    by (simp add: limitConcepts_def Let_def)
  ultimately show ?thesis
    using assms by (auto simp: plainResult_def list_all_iff)
qed

subsection \<open>The renderer prints plain strings only\<close>

lemma plain_emojiOf: "plainResult r \<Longrightarrow> plain (emojiOf r i)"
  by (auto simp: plainResult_def plainEmojis_def emojiOf_def ran_def split: option.splits)

lemma plain_boldName: "plainConcept c \<Longrightarrow> plain (boldName c)"
  by (simp add: boldName_def plain_displayName)

lemma plain_definitionText: "plainConcept c \<Longrightarrow> plain (definitionText c)"
  by (auto simp: definitionText_def plainConcept_def nl_def split: option.splits)

lemma find_Some_mem: "find P xs = Some x \<Longrightarrow> x \<in> set xs"
  by (auto simp: find_Some_iff)

lemma plain_relationPhrase:
  assumes "list_all (\<lambda>rel. plain (rtype rel)) rels" and "plainConcept parent"
  shows "plain (relationPhrase rels parent child)"
  using assms
  by (auto simp: relationPhrase_def plainConcept_def list_all_iff
      split: option.splits dest: find_Some_mem)

lemma plain_detailLine:
  assumes "list_all (\<lambda>rel. plain (rtype rel)) rels" and "plainConcept parent"
    and "plainConcept detail"
  shows "plain (detailLine rels parent detail)"
  using plain_relationPhrase [OF assms(1,2)] plain_boldName [OF assms(3)]
  by (simp add: detailLine_def nl_def)

lemma plain_joinWith:
  "plain sep \<Longrightarrow> list_all plain xs \<Longrightarrow> plain (joinWith sep xs)"
  by (auto simp: joinWith_def list_all_iff split: list.splits)

lemma plain_examples:
  assumes "plainConcept c"
  shows "plain (case examples c of
              None \<Rightarrow> []
            | Some es \<Rightarrow>
                (if es = [] then []
                 else js ''**Ejemplos:**'' @ [nl]
                      @ concat (map (\<lambda>e. js ''- '' @ e @ [nl]) es) @ [nl]))"
  using assms by (auto simp: plainConcept_def list_all_iff nl_def split: option.splits)

lemma plain_relatedTerms:
  assumes "plainConcept c"
  shows "plain (case relatedTerms c of
              None \<Rightarrow> []
            | Some ts \<Rightarrow>
                (if ts = [] then []
                 else js ''**T'' @ [233] @ js ''rminos relacionados:** ''
                      @ joinWith (js '', '') ts @ [nl, nl]))"
proof (cases "relatedTerms c")
  case None
  then show ?thesis by simp
next
  case (Some ts)
  with assms have "list_all plain ts" by (simp add: plainConcept_def)
  then have "plain (joinWith (js '', '') ts)"
    by (intro plain_joinWith) simp_all
  with Some show ?thesis by (simp add: nl_def)
qed

lemma plain_subConceptBlock:
  assumes r: "plainResult r" and m: "plainConcept mainConcept"
    and rels: "list_all (\<lambda>rel. plain (rtype rel)) relations"
    and s: "plainConcept subConcept"
  shows "plain (subConceptBlock r mainConcept relations subConcept)"
proof -
  let ?subRelations = "filter (\<lambda>rel. source rel = cid subConcept) (relationships r)"
  let ?details = "filter (relatedTo ?subRelations) (filter (\<lambda>c. level c = 2) (concepts r))"
  from r have sr: "list_all (\<lambda>rel. plain (rtype rel)) ?subRelations"
    by (simp add: plainResult_def list_all_iff)
  have "plain (detailLine ?subRelations subConcept d)" if "d \<in> set ?details" for d
  proof -
    from that r have "plainConcept d" by (simp add: plainResult_def list_all_iff)
    with sr s show ?thesis by (intro plain_detailLine)
  qed
  then have d: "plain (concat (map (detailLine ?subRelations subConcept) ?details))"
    by simp
  note parts = plain_emojiOf [OF r, of "cid subConcept"] plain_boldName [OF s]
    plain_relationPhrase [OF rels m, of subConcept] plain_definitionText [OF s]
    plain_examples [OF s] plain_relatedTerms [OF s] d
  show ?thesis
    unfolding subConceptBlock_def Let_def plain_simps(3)
    using parts by (intro conjI) (simp_all add: nl_def)
qed

lemma plain_mainConceptBlock:
  assumes r: "plainResult r" and m: "plainConcept mainConcept"
  shows "plain (mainConceptBlock r mainConcept)"
proof -
  let ?relations = "filter (\<lambda>rel. source rel = cid mainConcept) (relationships r)"
  let ?subs = "filter (relatedTo ?relations) (filter (\<lambda>c. level c = 1) (concepts r))"
  from r have rels: "list_all (\<lambda>rel. plain (rtype rel)) ?relations"
    by (simp add: plainResult_def list_all_iff)
  have "plain (subConceptBlock r mainConcept ?relations s)" if "s \<in> set ?subs" for s
  proof -
    from that r have "plainConcept s" by (simp add: plainResult_def list_all_iff)
    with r m rels show ?thesis by (intro plain_subConceptBlock)
  qed
  then have "plain (concat (map (subConceptBlock r mainConcept ?relations) ?subs))"
    by simp
  with plain_emojiOf [OF r, of "cid mainConcept"] plain_boldName [OF m]
    plain_definitionText [OF m]
  show ?thesis
    by (simp add: mainConceptBlock_def Let_def nl_def)
qed

lemma plain_generateEducationalConceptMap:
  assumes "plainResult r"
  shows "plain (generateEducationalConceptMap r)"
proof -
  have "plain (mainConceptBlock r c)" if "c \<in> set (concepts r)" for c
  proof -
    from that assms have "plainConcept c" by (simp add: plainResult_def list_all_iff)
    with assms show ?thesis by (rule plain_mainConceptBlock)
  qed
  then show ?thesis
    by (simp add: generateEducationalConceptMap_def nl_def)
qed

lemma plain_content:
  assumes "processText random3 text cfg = Some (Inr r)"
  shows "plain (content r)"
proof -
  from assms obtain s where s: "runStages random3 text cfg = Some (Inr s)"
    and r: "r = finish (limitConcepts (maxConcepts cfg) s)"
    by (auto simp: processText_returns)
  from plain_limitConcepts [OF plain_runStages [OF s]]
  show ?thesis
    unfolding r finish_fields by (rule plain_generateEducationalConceptMap)
qed

lemma title_content:
  assumes "processText random3 text cfg = Some (Inr r)"
  shows "startsWith (content r) (js ''# Mapa Conceptual'' @ [nl, nl])"
proof -
  from assms obtain s where "r = finish (limitConcepts (maxConcepts cfg) s)"
    by (auto simp: processText_returns)
  then show ?thesis
    by (simp add: finish_fields generateEducationalConceptMap_def startsWith_def)
qed



end
